theory Spec2Isabelle
  imports Complex_Main "HOL-Library.AList"
begin

unbundle bit_operations_syntax

section \<open>The token provider (ConvexTokenProvider)\<close>

text \<open>
  Times are epoch milliseconds and are modelled as \<open>int\<close>; a TypeScript \<open>number\<close> that
  holds a time, a count or a size is an \<open>int\<close> here (NaN and fractions are outside this
  model, except where a function can produce NaN itself: there the result is an option).
  Every operation that calls \<open>Date.now()\<close> takes the reading as the parameter \<open>now\<close>; a
  handler that reads the clock several times while it serves one request is given one
  reading.

  A JavaScript \<open>Map\<close> keeps its entries in insertion order with distinct keys: it is an
  association list, \<open>Map.set\<close> is \<open>AList.update\<close> (in place for a present key, appended
  for a new one), \<open>Map.get\<close> is \<open>map_of\<close> and \<open>Map.delete\<close> is \<open>AList.delete\<close>.
\<close>

record UserTokens =
  accessToken :: string
  refreshToken :: string
  expiresAt :: int
  scope :: string
  tokenType :: string

record TokenEntry =
  tokens :: UserTokens
  lastUpdated :: int
  lastAccessed :: int

type_synonym tokenStore = "(string \<times> TokenEntry) list"

datatype error = Error string

definition CLEANUP_INTERVAL_MS :: int where
  "CLEANUP_INTERVAL_MS = 30 * 60 * 1000"

definition STALE_TOKEN_THRESHOLD_MS :: int where
  "STALE_TOKEN_THRESHOLD_MS = 24 * 60 * 60 * 1000"

text \<open>\<open>validateTokens\<close>: \<open>!s\<close> on a string is \<open>s = ''''\<close>, \<open>!n\<close> on a number is \<open>n = 0\<close>.\<close>

definition validateTokens :: "UserTokens \<Rightarrow> error + unit" where
  "validateTokens t =
     (if accessToken t = [] then Inl (Error ''Invalid accessToken: must be a non-empty string'')
      else if refreshToken t = [] then Inl (Error ''Invalid refreshToken: must be a non-empty string'')
      else if expiresAt t = 0 then Inl (Error ''Invalid expiresAt: must be a number'')
      else if scope t = [] then Inl (Error ''Invalid scope: must be a string'')
      else if tokenType t = [] then Inl (Error ''Invalid tokenType: must be a string'')
      else Inr ())"

text \<open>
  \<open>setUserTokens\<close> returns the thrown error or unit, together with the store after the
  call.
\<close>

definition setUserTokens ::
  "string \<Rightarrow> UserTokens \<Rightarrow> int \<Rightarrow> tokenStore \<Rightarrow> (error + unit) \<times> tokenStore" where
  "setUserTokens userId t now st =
     (if userId = [] then (Inl (Error ''Invalid userId: must be a non-empty string''), st)
      else case validateTokens t of
             Inl e \<Rightarrow> (Inl e, st)
           | Inr _ \<Rightarrow>
               (Inr (), AList.update userId
                          \<lparr>tokens = t, lastUpdated = now, lastAccessed = now\<rparr> st))"

definition getUserTokens ::
  "string \<Rightarrow> int \<Rightarrow> tokenStore \<Rightarrow> UserTokens option \<times> tokenStore" where
  "getUserTokens userId now st =
     (if userId = [] then (None, st)
      else case map_of st userId of
             None \<Rightarrow> (None, st)
           | Some entry \<Rightarrow>
               (Some (tokens entry),
                AList.update userId (entry\<lparr>lastAccessed := now\<rparr>) st))"

definition removeUserTokens :: "string \<Rightarrow> tokenStore \<Rightarrow> bool \<times> tokenStore" where
  "removeUserTokens userId st = (map_of st userId \<noteq> None, AList.delete userId st)"

definition isTokenExpired :: "UserTokens \<Rightarrow> int \<Rightarrow> bool" where
  "isTokenExpired t now = (let bufferMs = 5 * 60 * 1000 in expiresAt t \<le> now + bufferMs)"

definition hasValidTokens :: "string \<Rightarrow> int \<Rightarrow> tokenStore \<Rightarrow> bool \<times> tokenStore" where
  "hasValidTokens userId now st =
     (case getUserTokens userId now st of
        (None, st') \<Rightarrow> (False, st')
      | (Some t, st') \<Rightarrow> (\<not> isTokenExpired t now, st'))"

definition getAllUserIds :: "tokenStore \<Rightarrow> string list" where
  "getAllUserIds st = map fst st"

definition clearAll :: "tokenStore \<Rightarrow> tokenStore" where
  "clearAll st = []"

text \<open>
  \<open>cleanupStaleTokens\<close> walks the entries of the map and deletes, by key, each one whose
  \<open>lastAccessed\<close> is below the threshold; the second component counts the deletions
  (\<open>removedCount\<close>, which the source only logs).
\<close>

fun cleanupLoop :: "int \<Rightarrow> (string \<times> TokenEntry) list \<Rightarrow> tokenStore \<Rightarrow> nat \<Rightarrow> tokenStore \<times> nat" where
  "cleanupLoop threshold [] st removedCount = (st, removedCount)"
| "cleanupLoop threshold ((userId, entry) # rest) st removedCount =
     (if lastAccessed entry < threshold
      then cleanupLoop threshold rest (AList.delete userId st) (removedCount + 1)
      else cleanupLoop threshold rest st removedCount)"

definition cleanupStaleTokens :: "int \<Rightarrow> tokenStore \<Rightarrow> tokenStore \<times> nat" where
  "cleanupStaleTokens now st =
     (let threshold = now - STALE_TOKEN_THRESHOLD_MS in cleanupLoop threshold st st 0)"


text \<open>
  \<open>getStats\<close>: one pass over the values of the map, counting the expired and the active
  entries and tracking the least and greatest \<open>lastUpdated\<close>.
\<close>

record TokenStats =
  totalUsers :: nat
  activeUsers :: nat
  expiredTokens :: nat
  oldestToken :: "int option"
  newestToken :: "int option"

fun statsLoop ::
  "int \<Rightarrow> TokenEntry list \<Rightarrow> nat \<times> nat \<times> int option \<times> int option
     \<Rightarrow> nat \<times> nat \<times> int option \<times> int option" where
  "statsLoop now [] acc = acc"
| "statsLoop now (entry # rest) (expiredCount, activeCount, oldest, newest) =
     statsLoop now rest
       (if isTokenExpired (tokens entry) now then expiredCount + 1 else expiredCount,
        if lastAccessed entry \<ge> now - 60 * 60 * 1000 then activeCount + 1 else activeCount,
        (case oldest of
           None \<Rightarrow> Some (lastUpdated entry)
         | Some v \<Rightarrow> if lastUpdated entry < v then Some (lastUpdated entry) else Some v),
        (case newest of
           None \<Rightarrow> Some (lastUpdated entry)
         | Some v \<Rightarrow> if lastUpdated entry > v then Some (lastUpdated entry) else Some v))"

definition getStats :: "int \<Rightarrow> tokenStore \<Rightarrow> TokenStats" where
  "getStats now st =
     (case statsLoop now (map snd st) (0, 0, None, None) of
        (expiredCount, activeCount, oldest, newest) \<Rightarrow>
          \<lparr>totalUsers = length st, activeUsers = activeCount, expiredTokens = expiredCount,
           oldestToken = oldest, newestToken = newest\<rparr>)"

section \<open>Configuration (ConvexConfig)\<close>

record RateLimitConfig =
  maxRequestsPerUser :: int
  maxTokenInjectionsPerIp :: int
  windowMs :: int

record TokenValidationConfig =
  minExpiryBufferMs :: int
  expiryWarningThresholdMs :: int

record CleanupConfig =
  intervalMs :: int
  staleThresholdMs :: int

record ConvexConfigOptions =
  enabled :: bool
  apiKey :: string
  allowedOrigins :: "string list"
  rateLimit :: RateLimitConfig
  tokenValidation :: TokenValidationConfig
  cleanup :: CleanupConfig

text \<open>The check the constructor runs on the loaded options.\<close>

definition validate :: "ConvexConfigOptions \<Rightarrow> error + unit" where
  "validate cfg =
     (if \<not> enabled cfg then Inr ()
      else if apiKey cfg = [] \<or> length (apiKey cfg) < 32 then
        Inl (Error ''MCP_API_KEY must be set and at least 32 characters long when CONVEX_MODE is enabled'')
      else if maxRequestsPerUser (rateLimit cfg) \<le> 0 then
        Inl (Error ''RATE_LIMIT_REQUESTS_PER_USER must be greater than 0'')
      else if maxTokenInjectionsPerIp (rateLimit cfg) \<le> 0 then
        Inl (Error ''RATE_LIMIT_TOKEN_INJECTIONS_PER_IP must be greater than 0'')
      else if windowMs (rateLimit cfg) \<le> 0 then
        Inl (Error ''RATE_LIMIT_WINDOW_MS must be greater than 0'')
      else Inr ())"

definition isEnabled :: "ConvexConfigOptions \<Rightarrow> bool" where
  "isEnabled cfg = enabled cfg"

text \<open>
  \<open>validateApiKey\<close>: the length test, then the loop
  \<open>result |= providedKey.charCodeAt(i) ^ apiKey.charCodeAt(i)\<close> over the positions of
  \<open>providedKey\<close>. A position beyond the end of \<open>apiKey\<close> reads NaN, which \<open>^\<close> takes
  as 0 (the second equation; the length test keeps the loop from reaching it).
  \<open>charCodeAt\<close> is \<open>of_char\<close>: the code of the character, as a natural number.
\<close>

fun keyLoop :: "string \<Rightarrow> string \<Rightarrow> nat \<Rightarrow> nat" where
  "keyLoop [] ks result = result"
| "keyLoop (p # ps) [] result = keyLoop ps [] (result OR (of_char p XOR 0))"
| "keyLoop (p # ps) (k # ks) result = keyLoop ps ks (result OR (of_char p XOR of_char k))"

definition validateApiKey :: "ConvexConfigOptions \<Rightarrow> string \<Rightarrow> bool" where
  "validateApiKey cfg providedKey =
     (if \<not> enabled cfg then True
      else if length providedKey \<noteq> length (apiKey cfg) then False
      else keyLoop providedKey (apiKey cfg) 0 = 0)"

definition isOriginAllowed :: "ConvexConfigOptions \<Rightarrow> string \<Rightarrow> bool" where
  "isOriginAllowed cfg origin =
     (if \<not> enabled cfg then True
      else if length (allowedOrigins cfg) = 0 then False
      else if ''*'' \<in> set (allowedOrigins cfg) then True
      else origin \<in> set (allowedOrigins cfg))"

section \<open>JavaScript strings and numbers\<close>

text \<open>
  A string is a list of characters and a header value holds Latin-1 characters, so \<open>char\<close>
  covers it. The white space of \<open>trim\<close> and \<open>parseInt\<close> in that range: TAB, LF, VT, FF,
  CR, space and the no-break space.
\<close>

definition isWhiteSpace :: "char \<Rightarrow> bool" where
  "isWhiteSpace c = ((of_char c :: nat) \<in> {9, 10, 11, 12, 13, 32, 160})"

definition isDigit :: "char \<Rightarrow> bool" where
  "isDigit c = (48 \<le> (of_char c :: nat) \<and> (of_char c :: nat) \<le> 57)"

definition trim :: "string \<Rightarrow> string" where
  "trim s = rev (dropWhile isWhiteSpace (rev (dropWhile isWhiteSpace s)))"

definition startsWith :: "string \<Rightarrow> string \<Rightarrow> bool" where
  "startsWith s pre = (take (length pre) s = pre)"

fun includesStr :: "string \<Rightarrow> string \<Rightarrow> bool" where
  "includesStr [] pat = (pat = [])"
| "includesStr (c # cs) pat = (startsWith (c # cs) pat \<or> includesStr cs pat)"

text \<open>\<open>s.replace(pat, rep)\<close> with a string pattern: the first occurrence only.\<close>

fun replaceFirst :: "string \<Rightarrow> string \<Rightarrow> string \<Rightarrow> string" where
  "replaceFirst [] pat rep = (if pat = [] then rep else [])"
| "replaceFirst (c # cs) pat rep =
     (if startsWith (c # cs) pat then rep @ drop (length pat) (c # cs)
      else c # replaceFirst cs pat rep)"

text \<open>\<open>s.split(sep)[0]\<close> for a one-character separator.\<close>

definition splitFirst :: "char \<Rightarrow> string \<Rightarrow> string" where
  "splitFirst sep s = takeWhile (\<lambda>c. c \<noteq> sep) s"

fun joinStr :: "string \<Rightarrow> string list \<Rightarrow> string" where
  "joinStr sep [] = []"
| "joinStr sep [x] = x"
| "joinStr sep (x # y # ys) = x @ sep @ joinStr sep (y # ys)"

text \<open>\<open>String(n)\<close> for an integer (below the magnitude where JavaScript switches to exponents).\<close>

function showNat :: "nat \<Rightarrow> string" where
  "showNat n = (if n < 10 then [char_of (48 + n)] else showNat (n div 10) @ [char_of (48 + n mod 10)])"
  by pat_completeness auto
termination
  by (relation "measure id") auto

declare showNat.simps [simp del]

definition showInt :: "int \<Rightarrow> string" where
  "showInt i = (if i < 0 then CHR ''-'' # showNat (nat (- i)) else showNat (nat i))"

text \<open>
  \<open>parseInt(s, 10)\<close>: leading white space is skipped, one sign is read, then the longest
  run of decimal digits; no digit gives NaN, which is \<open>None\<close> here.
\<close>

definition digitsValue :: "string \<Rightarrow> int" where
  "digitsValue ds = foldl (\<lambda>acc c. 10 * acc + (of_char c - 48)) 0 ds"

definition parseInt :: "string \<Rightarrow> int option" where
  "parseInt s =
     (let s1 = dropWhile isWhiteSpace s;
          neg = (s1 \<noteq> [] \<and> hd s1 = CHR ''-'');
          s2 = (if s1 \<noteq> [] \<and> (hd s1 = CHR ''-'' \<or> hd s1 = CHR ''+'') then tl s1 else s1);
          ds = takeWhile isDigit s2
      in if ds = [] then None
         else Some (if neg then - digitsValue ds else digitsValue ds))"

text \<open>\<open>Math.ceil(a / b)\<close> for integers \<open>a\<close> and a positive \<open>b\<close>.\<close>

definition ceilDiv :: "int \<Rightarrow> int \<Rightarrow> int" where
  "ceilDiv a b = - ((- a) div b)"

text \<open>
  JSON values. A number is a rational: the rounding of doubles, and a literal beyond their
  range (which the code reads as Infinity), are outside the model.
\<close>

datatype json =
  JNull
| JBool bool
| JNum rat
| JStr string
| JArr "json list"
| JObj "(string \<times> json) list"

section \<open>Requests, responses and the state of the process\<close>

text \<open>
  \<open>reqHeaders\<close> are the headers as Node gives them (lower-case names, one string each).
  \<open>reqBody\<close> is what \<open>parseJsonBody\<close> settles to: the parsed value (\<open>{}\<close> for an empty
  body), or the error it rejects with (\<open>Invalid JSON body\<close> when \<open>JSON.parse\<close> throws).
\<close>

record request =
  reqMethod :: string
  reqUrl :: string
  reqHeaders :: "(string \<times> string) list"
  remoteAddress :: "string option"
  reqBody :: "error + json"

text \<open>
  The response object: \<open>setHeader\<close> records a header, \<open>writeHead\<close> and \<open>end\<close> send it.
  The member \<open>timestamp: new Date().toISOString()\<close> that \<open>sendJsonError\<close> and
  \<open>sendJsonSuccess\<close> put last into the body is kept as the clock reading \<open>resTimestamp\<close>.
\<close>

record response =
  headersSent :: bool
  statusCode :: nat
  resHeaders :: "(string \<times> string) list"
  resBody :: "json option"
  resTimestamp :: "int option"

definition newResponse :: response where
  "newResponse = \<lparr>headersSent = False, statusCode = 200, resHeaders = [], resBody = None,
     resTimestamp = None\<rparr>"

definition setHeader :: "string \<Rightarrow> string \<Rightarrow> response \<Rightarrow> response" where
  "setHeader name v res = res\<lparr>resHeaders := AList.update name v (resHeaders res)\<rparr>"

record RateLimitEntry =
  count :: int
  resetTime :: int

type_synonym rateLimitStore = "(string \<times> RateLimitEntry) list"

record serverState =
  tokenStore :: tokenStore
  byUser :: rateLimitStore
  byIp :: rateLimitStore

text \<open>
  How a request ends: the response was produced (\<open>Finished\<close>), or an exception left the
  handler uncaught.
\<close>

datatype outcome = Finished response serverState | Uncaught error response serverState

text \<open>
  A middleware receives the request, the continuation \<open>next\<close> and the response with the
  state; it either calls \<open>next\<close> or ends the request.
\<close>

type_synonym continuation = "response \<Rightarrow> serverState \<Rightarrow> outcome"
type_synonym middleware = "request \<Rightarrow> continuation \<Rightarrow> response \<Rightarrow> serverState \<Rightarrow> outcome"

section \<open>Middleware (middleware/auth)\<close>

text \<open>The periodic sweep of one rate-limit store.\<close>

definition sweepRateLimits :: "int \<Rightarrow> rateLimitStore \<Rightarrow> rateLimitStore" where
  "sweepRateLimits now store = filter (\<lambda>(key, entry). \<not> resetTime entry < now) store"

text \<open>The value of an optional string when it is truthy (present and not empty).\<close>

definition truthy :: "string option \<Rightarrow> string option" where
  "truthy h = (case h of None \<Rightarrow> None | Some s \<Rightarrow> if s = [] then None else Some s)"

definition header :: "request \<Rightarrow> string \<Rightarrow> string option" where
  "header req name = map_of (reqHeaders req) name"

definition getClientIp :: "request \<Rightarrow> string" where
  "getClientIp req =
     (case truthy (header req ''x-forwarded-for'') of
        Some forwardedFor \<Rightarrow> trim (splitFirst CHR '','' forwardedFor)
      | None \<Rightarrow>
          (case truthy (header req ''x-real-ip'') of
             Some realIp \<Rightarrow> realIp
           | None \<Rightarrow>
               (case truthy (remoteAddress req) of
                  Some a \<Rightarrow> a
                | None \<Rightarrow> ''unknown'')))"

definition sendJsonError :: "response \<Rightarrow> nat \<Rightarrow> string \<Rightarrow> string \<Rightarrow> int \<Rightarrow> response" where
  "sendJsonError res code err message now =
     (if headersSent res then res
      else res\<lparr>headersSent := True, statusCode := code,
             resHeaders := AList.update ''Content-Type'' ''application/json'' (resHeaders res),
             resBody := Some (JObj [(''error'', JStr err),
                                    (''message'', JStr (if message = [] then err else message))]),
             resTimestamp := Some now\<rparr>)"

definition sendJsonSuccess :: "response \<Rightarrow> (string \<times> json) list \<Rightarrow> nat \<Rightarrow> int \<Rightarrow> response" where
  "sendJsonSuccess res data code now =
     (if headersSent res then res
      else res\<lparr>headersSent := True, statusCode := code,
             resHeaders := AList.update ''Content-Type'' ''application/json'' (resHeaders res),
             resBody := Some (JObj data),
             resTimestamp := Some now\<rparr>)"

text \<open>The end of \<open>corsMiddleware\<close>: the common headers, then the preflight answer or \<open>next\<close>.\<close>

definition corsFinish :: middleware where
  "corsFinish req next res st =
     (let res2 =
            setHeader ''Access-Control-Max-Age'' ''86400''
              (setHeader ''Access-Control-Allow-Headers'' ''Content-Type, Authorization, X-API-Key''
                (setHeader ''Access-Control-Allow-Methods'' ''GET, POST, DELETE, OPTIONS'' res))
      in if reqMethod req = ''OPTIONS''
         then Finished (res2\<lparr>headersSent := True, statusCode := 204\<rparr>) st
         else next res2 st)"

definition corsMiddleware :: "ConvexConfigOptions \<Rightarrow> int \<Rightarrow> middleware" where
  "corsMiddleware cfg now req next res st =
     (if \<not> isEnabled cfg then
        next (setHeader ''Access-Control-Allow-Headers'' ''Content-Type, Authorization, X-API-Key''
               (setHeader ''Access-Control-Allow-Methods'' ''GET, POST, DELETE, OPTIONS''
                 (setHeader ''Access-Control-Allow-Origin'' ''*'' res))) st
      else
        case (case truthy (header req ''origin'') of
                None \<Rightarrow> None
              | Some origin \<Rightarrow> if isOriginAllowed cfg origin then Some origin else None) of
          Some origin \<Rightarrow>
            corsFinish req next
              (setHeader ''Access-Control-Allow-Credentials'' ''true''
                (setHeader ''Access-Control-Allow-Origin'' origin res)) st
        | None \<Rightarrow>
            if ''*'' \<in> set (allowedOrigins cfg) then
              corsFinish req next (setHeader ''Access-Control-Allow-Origin'' ''*'' res) st
            else if reqMethod req \<noteq> ''OPTIONS'' then
              Finished (sendJsonError res 403 ''Forbidden'' ''Origin not allowed'' now) st
            else corsFinish req next res st)"

text \<open>
  The key a request presents: the \<open>x-api-key\<close> header, else the \<open>authorization\<close> header
  without its first \<open>Bearer \<close>, else the empty string.
\<close>

definition extractApiKey :: "request \<Rightarrow> string" where
  "extractApiKey req =
     (case truthy (header req ''x-api-key'') of
        Some k \<Rightarrow> k
      | None \<Rightarrow>
          (case truthy (map_option (\<lambda>a. replaceFirst a ''Bearer '' []) (header req ''authorization'')) of
             Some k \<Rightarrow> k
           | None \<Rightarrow> []))"

definition apiKeyAuth :: "ConvexConfigOptions \<Rightarrow> int \<Rightarrow> middleware" where
  "apiKeyAuth cfg now req next res st =
     (if \<not> isEnabled cfg then next res st
      else if \<not> validateApiKey cfg (extractApiKey req) then
        Finished (sendJsonError res 401 ''Unauthorized'' ''Invalid or missing API key'' now) st
      else next res st)"

text \<open>
  The two rate limiters share their steps: fetch the entry of the key, replace it by a
  fresh one when it is absent or \<open>resetTime < now\<close>, then increment \<open>count\<close> in the store.
  \<open>touchEntry\<close> is these steps on one store; it returns the entry after the increment.
\<close>

definition touchEntry :: "string \<Rightarrow> int \<Rightarrow> int \<Rightarrow> rateLimitStore \<Rightarrow> RateLimitEntry \<times> rateLimitStore" where
  "touchEntry key now window store =
     (let (entry, store1) =
            (case map_of store key of
               None \<Rightarrow>
                 (\<lparr>count = 0, resetTime = now + window\<rparr>,
                  AList.update key \<lparr>count = 0, resetTime = now + window\<rparr> store)
             | Some e \<Rightarrow>
                 if resetTime e < now
                 then (\<lparr>count = 0, resetTime = now + window\<rparr>,
                       AList.update key \<lparr>count = 0, resetTime = now + window\<rparr> store)
                 else (e, store));
          entry' = entry\<lparr>count := count entry + 1\<rparr>
      in (entry', AList.update key entry' store1))"

definition rateLimitTokenInjection :: "ConvexConfigOptions \<Rightarrow> int \<Rightarrow> middleware" where
  "rateLimitTokenInjection cfg now req next res st =
     (if \<not> isEnabled cfg then next res st
      else
        let ip = getClientIp req;
            rateLimitConfig = rateLimit cfg;
            (entry, store') = touchEntry ip now (windowMs rateLimitConfig) (byIp st);
            st' = st\<lparr>byIp := store'\<rparr>
        in
        if count entry > maxTokenInjectionsPerIp rateLimitConfig then
          let retryAfter = ceilDiv (resetTime entry - now) 1000 in
          Finished
            (sendJsonError
               (setHeader ''X-RateLimit-Reset'' (showInt (resetTime entry))
                 (setHeader ''X-RateLimit-Remaining'' ''0''
                   (setHeader ''X-RateLimit-Limit'' (showInt (maxTokenInjectionsPerIp rateLimitConfig))
                     (setHeader ''Retry-After'' (showInt retryAfter) res))))
               429 ''Too Many Requests''
               (''Rate limit exceeded. Try again in '' @ showInt retryAfter @ '' seconds.'') now)
            st'
        else
          next
            (setHeader ''X-RateLimit-Reset'' (showInt (resetTime entry))
              (setHeader ''X-RateLimit-Remaining''
                  (showInt (maxTokenInjectionsPerIp rateLimitConfig - count entry))
                (setHeader ''X-RateLimit-Limit'' (showInt (maxTokenInjectionsPerIp rateLimitConfig)) res)))
            st')"

definition rateLimitToolRequests :: "string option \<Rightarrow> ConvexConfigOptions \<Rightarrow> int \<Rightarrow> middleware" where
  "rateLimitToolRequests userIdOpt cfg now req next res st =
     (case (if isEnabled cfg then truthy userIdOpt else None) of
        None \<Rightarrow> next res st
      | Some userId \<Rightarrow>
        let rateLimitConfig = rateLimit cfg;
            (entry, store') = touchEntry userId now (windowMs rateLimitConfig) (byUser st);
            st' = st\<lparr>byUser := store'\<rparr>
        in
        if count entry > maxRequestsPerUser rateLimitConfig then
          let retryAfter = ceilDiv (resetTime entry - now) 1000 in
          Finished
            (sendJsonError
               (setHeader ''X-RateLimit-Reset'' (showInt (resetTime entry))
                 (setHeader ''X-RateLimit-Remaining'' ''0''
                   (setHeader ''X-RateLimit-Limit'' (showInt (maxRequestsPerUser rateLimitConfig))
                     (setHeader ''Retry-After'' (showInt retryAfter) res))))
               429 ''Too Many Requests''
               (''User rate limit exceeded. Try again in '' @ showInt retryAfter @ '' seconds.'') now)
            st'
        else
          next
            (setHeader ''X-RateLimit-Reset'' (showInt (resetTime entry))
              (setHeader ''X-RateLimit-Remaining''
                  (showInt (maxRequestsPerUser rateLimitConfig - count entry))
                (setHeader ''X-RateLimit-Limit'' (showInt (maxRequestsPerUser rateLimitConfig)) res)))
            st')"

text \<open>
  The declared size of a request: \<open>parseInt(req.headers['content-length'] || '0', 10)\<close>.
\<close>

definition contentLength :: "request \<Rightarrow> int option" where
  "contentLength req =
     parseInt (case truthy (header req ''content-length'') of None \<Rightarrow> ''0'' | Some h \<Rightarrow> h)"

text \<open>\<open>contentLength > maxSize\<close>; a comparison with NaN is false.\<close>

definition exceeds :: "int option \<Rightarrow> int \<Rightarrow> bool" where
  "exceeds n maxSize = (case n of None \<Rightarrow> False | Some v \<Rightarrow> v > maxSize)"

definition requestSizeLimit :: "int \<Rightarrow> int \<Rightarrow> middleware" where
  "requestSizeLimit maxSize now req next res st =
     (if exceeds (contentLength req) maxSize then
        Finished
          (sendJsonError res 413 ''Payload Too Large''
             (''Request size exceeds maximum allowed size of '' @ showInt maxSize @ '' bytes'') now)
          st
      else next res st)"

definition defaultMaxSize :: int where
  "defaultMaxSize = 10 * 1024 * 1024"

definition securityHeaders :: middleware where
  "securityHeaders req next res st =
     next
       (setHeader ''Content-Security-Policy''
          ''default-src 'self'; script-src 'self'; style-src 'self' 'unsafe-inline'; img-src 'self' data:;''
         (setHeader ''Referrer-Policy'' ''strict-origin-when-cross-origin''
           (setHeader ''X-XSS-Protection'' ''1; mode=block''
             (setHeader ''X-Content-Type-Options'' ''nosniff''
               (setHeader ''X-Frame-Options'' ''DENY'' res)))))
       st"

text \<open>
  \<open>composeMiddleware\<close>: the continuation of each middleware runs the next one of the
  list, and the continuation of the last is \<open>next\<close>.
\<close>

fun composeMiddleware :: "middleware list \<Rightarrow> middleware" where
  "composeMiddleware [] req next res st = next res st"
| "composeMiddleware (m # ms) req next res st = m req (composeMiddleware ms req next) res st"

section \<open>Token endpoints (api/tokenEndpoints)\<close>

text \<open>
  \<open>InjectTokensSchema.safeParse\<close>: the issues in the order of the schema's fields, each
  with its path and message, or the parsed data. The messages given in the schema are
  the source's; the others are the validation library's defaults.
\<close>

definition parsedType :: "json \<Rightarrow> string" where
  "parsedType v =
     (case v of
        JNull \<Rightarrow> ''null''
      | JBool b \<Rightarrow> ''boolean''
      | JNum r \<Rightarrow> ''number''
      | JStr s \<Rightarrow> ''string''
      | JArr xs \<Rightarrow> ''array''
      | JObj kvs \<Rightarrow> ''object'')"

type_synonym issue = "string \<times> string"

definition zString :: "(string \<times> json) list \<Rightarrow> string \<Rightarrow> string \<Rightarrow> issue list + string" where
  "zString obj field message =
     (case map_of obj field of
        None \<Rightarrow> Inl [(field, ''Required'')]
      | Some (JStr s) \<Rightarrow> if length s < 1 then Inl [(field, message)] else Inr s
      | Some v \<Rightarrow> Inl [(field, ''Expected string, received '' @ parsedType v)])"

definition zPositiveInt :: "(string \<times> json) list \<Rightarrow> string \<Rightarrow> string \<Rightarrow> issue list + int" where
  "zPositiveInt obj field message =
     (case map_of obj field of
        None \<Rightarrow> Inl [(field, ''Required'')]
      | Some (JNum r) \<Rightarrow>
          (let issues =
                 (if of_int \<lfloor>r\<rfloor> \<noteq> r then [(field, ''Expected integer, received float'')] else [])
                 @ (if r \<le> 0 then [(field, message)] else [])
           in if issues = [] then Inr \<lfloor>r\<rfloor> else Inl issues)
      | Some v \<Rightarrow> Inl [(field, ''Expected number, received '' @ parsedType v)])"

definition issuesOf :: "issue list + 'a \<Rightarrow> issue list" where
  "issuesOf r = (case r of Inl is \<Rightarrow> is | Inr v \<Rightarrow> [])"

definition safeParse :: "json \<Rightarrow> issue list + string \<times> UserTokens" where
  "safeParse body =
     (case body of
        JObj obj \<Rightarrow>
          (let userId = zString obj ''userId'' ''userId is required'';
               accessTok = zString obj ''accessToken'' ''accessToken is required'';
               refreshTok = zString obj ''refreshToken'' ''refreshToken is required'';
               expires = zPositiveInt obj ''expiresAt'' ''expiresAt must be a positive integer'';
               scp = zString obj ''scope'' ''scope is required'';
               tokType = zString obj ''tokenType'' ''tokenType is required''
           in case (userId, accessTok, refreshTok, expires, scp, tokType) of
                (Inr u, Inr a, Inr r, Inr e, Inr s, Inr t) \<Rightarrow>
                  Inr (u, \<lparr>accessToken = a, refreshToken = r, expiresAt = e, scope = s, tokenType = t\<rparr>)
              | _ \<Rightarrow>
                  Inl (issuesOf userId @ issuesOf accessTok @ issuesOf refreshTok
                       @ issuesOf expires @ issuesOf scp @ issuesOf tokType))
      | v \<Rightarrow> Inl [([], ''Expected object, received '' @ parsedType v)])"

definition issuesMessage :: "issue list \<Rightarrow> string" where
  "issuesMessage is = joinStr '', '' (map (\<lambda>(path, message). path @ '': '' @ message) is)"

text \<open>\<open>parseUrl(url).path\<close> and \<open>extractUserId\<close>.\<close>

definition urlPath :: "string \<Rightarrow> string" where
  "urlPath url = splitFirst CHR ''?'' url"

definition extractUserId :: "string \<Rightarrow> string \<Rightarrow> string option" where
  "extractUserId path pre =
     (if \<not> startsWith path pre then None
      else truthy (Some (splitFirst CHR ''/'' (drop (length pre) path))))"

text \<open>
  \<open>handleInjectTokens\<close>. An exception inside the \<open>try\<close> block is caught: the rejected body
  parse and an error thrown by \<open>setUserTokens\<close> end in the 400 or 500 answers of the
  \<open>catch\<close> block.
\<close>

definition handleInjectTokens :: "ConvexConfigOptions \<Rightarrow> int \<Rightarrow> request \<Rightarrow> continuation" where
  "handleInjectTokens cfg now req res st =
     (case reqBody req of
        Inl e \<Rightarrow>
          (if e = Error ''Invalid JSON body''
           then Finished (sendJsonError res 400 ''Bad Request'' ''Invalid JSON in request body'' now) st
           else Finished (sendJsonError res 500 ''Internal Server Error'' ''Failed to inject tokens'' now) st)
      | Inr body \<Rightarrow>
          (case safeParse body of
             Inl issues \<Rightarrow>
               Finished (sendJsonError res 400 ''Validation Error'' (issuesMessage issues) now) st
           | Inr (userId, userTokens) \<Rightarrow>
               let tokenValidation' = tokenValidation cfg;
                   timeUntilExpiry = expiresAt userTokens - now
               in
               if timeUntilExpiry \<le> 0 then
                 Finished
                   (sendJsonError res 400 ''Invalid Token''
                      ''Token has already expired. Please refresh the token before injecting.'' now)
                   st
               else if timeUntilExpiry < minExpiryBufferMs tokenValidation' then
                 Finished
                   (sendJsonError res 400 ''Token Expiring Soon''
                      (''Token expires in '' @ showInt (ceilDiv timeUntilExpiry 60000)
                       @ '' minutes. Please refresh before injecting.'') now)
                   st
               else
                 let warningMessage =
                       (if timeUntilExpiry < expiryWarningThresholdMs tokenValidation'
                        then [(''warning'',
                               JStr (''Token will expire in '' @ showInt (ceilDiv timeUntilExpiry 60000)
                                     @ '' minutes. Consider refreshing soon.''))]
                        else [])
                 in
                 (case setUserTokens userId userTokens now (tokenStore st) of
                   (Inl e, store') \<Rightarrow>
                     Finished
                       (sendJsonError res 500 ''Internal Server Error'' ''Failed to inject tokens'' now)
                       (st\<lparr>tokenStore := store'\<rparr>)
                 | (Inr u, store') \<Rightarrow>
                     Finished
                       (sendJsonSuccess res
                          ([(''success'', JBool True),
                            (''message'', JStr ''Tokens injected successfully''),
                            (''userId'', JStr userId),
                            (''expiresAt'', JNum (of_int (expiresAt userTokens))),
                            (''expiresIn'', JNum (of_int timeUntilExpiry))] @ warningMessage)
                          200 now)
                       (st\<lparr>tokenStore := store'\<rparr>))))"

definition handleTokenStatus :: "int \<Rightarrow> string \<Rightarrow> continuation" where
  "handleTokenStatus now userId res st =
     (case getUserTokens userId now (tokenStore st) of
        (None, store') \<Rightarrow>
          Finished
            (sendJsonSuccess res
               [(''userId'', JStr userId), (''hasTokens'', JBool False), (''valid'', JBool False),
                (''message'', JStr ''No tokens found for user'')] 200 now)
            (st\<lparr>tokenStore := store'\<rparr>)
      | (Some t, store') \<Rightarrow>
          let isExpired = isTokenExpired t now;
              expiresIn = expiresAt t - now
          in
          Finished
            (sendJsonSuccess res
               [(''userId'', JStr userId), (''hasTokens'', JBool True), (''valid'', JBool (\<not> isExpired)),
                (''expiresAt'', JNum (of_int (expiresAt t))),
                (''expiresIn'', JNum (of_int (if expiresIn > 0 then expiresIn else 0))),
                (''expired'', JBool isExpired), (''scope'', JStr (scope t))] 200 now)
            (st\<lparr>tokenStore := store'\<rparr>))"

definition handleDeleteTokens :: "int \<Rightarrow> string \<Rightarrow> continuation" where
  "handleDeleteTokens now userId res st =
     (case getUserTokens userId now (tokenStore st) of
        (t, store') \<Rightarrow>
          let hadTokens = (t \<noteq> None);
              (removed, store'') = removeUserTokens userId store'
          in
          Finished
            (sendJsonSuccess res
               [(''success'', JBool True), (''userId'', JStr userId),
                (''message'', JStr (if hadTokens then ''Tokens removed successfully''
                                    else ''No tokens found for user (already removed)''))] 200 now)
            (st\<lparr>tokenStore := store''\<rparr>))"

text \<open>
  The routes behind the authentication of \<open>handleTokenEndpoints\<close>; they run only when the
  middleware has called its continuation and nothing has been sent.
\<close>

definition tokenRoutes :: "ConvexConfigOptions \<Rightarrow> int \<Rightarrow> request \<Rightarrow> continuation" where
  "tokenRoutes cfg now req res st =
     (let path = urlPath (reqUrl req) in
      if headersSent res then Finished res st
      else if reqMethod req = ''POST'' \<and> path = ''/api/tokens'' then handleInjectTokens cfg now req res st
      else
        case (if reqMethod req = ''GET'' \<and> startsWith path ''/api/tokens/''
              then (case extractUserId path ''/api/tokens/'' of
                      None \<Rightarrow> None
                    | Some userId \<Rightarrow>
                        if path = ''/api/tokens/'' @ userId @ ''/status'' then Some userId else None)
              else None) of
          Some userId \<Rightarrow> handleTokenStatus now userId res st
        | None \<Rightarrow>
            (case (if reqMethod req = ''DELETE'' \<and> startsWith path ''/api/tokens/''
                   then extractUserId path ''/api/tokens/'' else None) of
               Some userId \<Rightarrow> handleDeleteTokens now userId res st
             | None \<Rightarrow>
                 Finished (sendJsonError res 404 ''Not Found'' ''Token endpoint not found'' now) st))"

text \<open>\<open>handleTokenEndpoints\<close>: \<open>None\<close> when the path is not its own (it returns false).\<close>

definition handleTokenEndpoints ::
  "ConvexConfigOptions \<Rightarrow> int \<Rightarrow> request \<Rightarrow> response \<Rightarrow> serverState \<Rightarrow> outcome option" where
  "handleTokenEndpoints cfg now req res st =
     (if \<not> startsWith (urlPath (reqUrl req)) ''/api/tokens'' then None
      else Some (composeMiddleware [apiKeyAuth cfg now, rateLimitTokenInjection cfg now] req
                   (tokenRoutes cfg now req) res st))"

section \<open>Management endpoints (api/managementEndpoints)\<close>

text \<open>
  What the handlers read from the Node process (\<open>process.uptime()\<close>,
  \<open>process.memoryUsage()\<close> and so on) is the parameter \<open>proc\<close>.
\<close>

record processInfo =
  uptime :: rat
  heapUsed :: int
  heapTotal :: int
  external :: int
  rss :: int
  arrayBuffers :: int
  pid :: int
  cpuUser :: int
  cpuSystem :: int
  nodeVersion :: string
  platform :: string

definition modeName :: "ConvexConfigOptions \<Rightarrow> json" where
  "modeName cfg = JStr (if isEnabled cfg then ''convex'' else ''standard'')"

definition rateLimitJson :: "RateLimitConfig \<Rightarrow> json" where
  "rateLimitJson r =
     JObj [(''maxRequestsPerUser'', JNum (of_int (maxRequestsPerUser r))),
           (''maxTokenInjectionsPerIp'', JNum (of_int (maxTokenInjectionsPerIp r))),
           (''windowMs'', JNum (of_int (windowMs r)))]"

definition tokenValidationJson :: "TokenValidationConfig \<Rightarrow> json" where
  "tokenValidationJson v =
     JObj [(''minExpiryBufferMs'', JNum (of_int (minExpiryBufferMs v))),
           (''expiryWarningThresholdMs'', JNum (of_int (expiryWarningThresholdMs v)))]"

definition cleanupJson :: "CleanupConfig \<Rightarrow> json" where
  "cleanupJson c =
     JObj [(''intervalMs'', JNum (of_int (intervalMs c))),
           (''staleThresholdMs'', JNum (of_int (staleThresholdMs c)))]"

text \<open>
  \<open>handleHealthCheck\<close>; the \<open>timestamp\<close> member of its data is overwritten by the one
  \<open>sendJsonSuccess\<close> adds.
\<close>

definition handleHealthCheck :: "ConvexConfigOptions \<Rightarrow> int \<Rightarrow> processInfo \<Rightarrow> continuation" where
  "handleHealthCheck cfg now proc res st =
     (let stats = getStats now (tokenStore st) in
      Finished
        (sendJsonSuccess res
           [(''status'', JStr ''healthy''), (''server'', JStr ''google-calendar-mcp''),
            (''mode'', modeName cfg), (''uptime'', JNum (uptime proc)),
            (''memory'', JObj [(''used'', JNum (of_int (heapUsed proc))),
                               (''total'', JNum (of_int (heapTotal proc)))]),
            (''users'', JObj [(''total'', JNum (of_nat (totalUsers stats))),
                              (''active'', JNum (of_nat (activeUsers stats)))])]
           200 now)
        st)"

text \<open>\<open>stats.oldestToken ? Date.now() - stats.oldestToken : null\<close>: zero is falsy.\<close>

definition tokenAge :: "int \<Rightarrow> int option \<Rightarrow> json" where
  "tokenAge now t =
     (case t of None \<Rightarrow> JNull | Some v \<Rightarrow> if v = 0 then JNull else JNum (of_int (now - v)))"

definition handleMetrics :: "ConvexConfigOptions \<Rightarrow> int \<Rightarrow> processInfo \<Rightarrow> continuation" where
  "handleMetrics cfg now proc res st =
     (let stats = getStats now (tokenStore st) in
      Finished
        (sendJsonSuccess res
           [(''server'', JObj [(''name'', JStr ''google-calendar-mcp''), (''mode'', modeName cfg),
                               (''uptime'', JNum (uptime proc)),
                               (''nodeVersion'', JStr (nodeVersion proc)),
                               (''platform'', JStr (platform proc))]),
            (''tokens'', JObj [(''totalUsers'', JNum (of_nat (totalUsers stats))),
                               (''activeUsers'', JNum (of_nat (activeUsers stats))),
                               (''expiredTokens'', JNum (of_nat (expiredTokens stats))),
                               (''oldestTokenAge'', tokenAge now (oldestToken stats)),
                               (''newestTokenAge'', tokenAge now (newestToken stats))]),
            (''memory'', JObj [(''heapUsed'', JNum (of_int (heapUsed proc))),
                               (''heapTotal'', JNum (of_int (heapTotal proc))),
                               (''external'', JNum (of_int (external proc))),
                               (''rss'', JNum (of_int (rss proc))),
                               (''arrayBuffers'', JNum (of_int (arrayBuffers proc)))]),
            (''process'', JObj [(''pid'', JNum (of_int (pid proc))),
                                (''cpuUsage'', JObj [(''user'', JNum (of_int (cpuUser proc))),
                                                     (''system'', JNum (of_int (cpuSystem proc)))])]),
            (''config'',
               if isEnabled cfg
               then JObj [(''rateLimits'', rateLimitJson (rateLimit cfg)),
                          (''allowedOrigins'', JArr (map JStr (allowedOrigins cfg))),
                          (''tokenValidation'', tokenValidationJson (tokenValidation cfg)),
                          (''cleanup'', cleanupJson (cleanup cfg))]
               else JNull)]
           200 now)
        st)"

text \<open>
  \<open>handleActiveUsers\<close>: the list of user ids is taken first, then \<open>getUserTokens\<close> is
  called for each id in turn; an id without tokens gives \<open>null\<close>, which is filtered out.
\<close>

fun activeUsersLoop :: "int \<Rightarrow> string list \<Rightarrow> tokenStore \<Rightarrow> json list \<times> tokenStore" where
  "activeUsersLoop now [] store = ([], store)"
| "activeUsersLoop now (userId # rest) store =
     (case getUserTokens userId now store of
        (None, store') \<Rightarrow> activeUsersLoop now rest store'
      | (Some t, store') \<Rightarrow>
          (let isExpired = isTokenExpired t now;
               expiresIn = expiresAt t - now;
               user = JObj [(''userId'', JStr userId), (''valid'', JBool (\<not> isExpired)),
                            (''expiresIn'', JNum (of_int (if expiresIn > 0 then expiresIn else 0))),
                            (''scope'', JStr (scope t))]
           in case activeUsersLoop now rest store' of
                (users, store'') \<Rightarrow> (user # users, store'')))"

definition handleActiveUsers :: "int \<Rightarrow> continuation" where
  "handleActiveUsers now res st =
     (let userIds = getAllUserIds (tokenStore st);
          stats = getStats now (tokenStore st);
          (users, store') = activeUsersLoop now userIds (tokenStore st)
      in Finished
           (sendJsonSuccess res
              [(''total'', JNum (of_nat (totalUsers stats))),
               (''active'', JNum (of_nat (activeUsers stats))),
               (''expired'', JNum (of_nat (expiredTokens stats))),
               (''users'', JArr users)]
              200 now)
           (st\<lparr>tokenStore := store'\<rparr>))"

definition handleGetConfig :: "ConvexConfigOptions \<Rightarrow> int \<Rightarrow> continuation" where
  "handleGetConfig cfg now res st =
     Finished
       (sendJsonSuccess res
          [(''convexMode'', JBool (isEnabled cfg)),
           (''rateLimits'', rateLimitJson (rateLimit cfg)),
           (''allowedOrigins'', JArr (map JStr (allowedOrigins cfg))),
           (''tokenValidation'', tokenValidationJson (tokenValidation cfg)),
           (''cleanup'', cleanupJson (cleanup cfg))]
          200 now)
       st"

definition handleVersion :: "int \<Rightarrow> processInfo \<Rightarrow> continuation" where
  "handleVersion now proc res st =
     Finished
       (sendJsonSuccess res
          [(''server'', JStr ''google-calendar-mcp''), (''version'', JStr ''2.0.6''),
           (''nodeVersion'', JStr (nodeVersion proc)), (''mcpVersion'', JStr ''1.12.1'')]
          200 now)
       st"

text \<open>
  \<open>res.writeHead(code, {'Content-Type': 'application/json'})\<close> followed by
  \<open>res.end(JSON.stringify(obj))\<close>.
\<close>

definition writeJson :: "response \<Rightarrow> nat \<Rightarrow> json \<Rightarrow> response" where
  "writeJson res code obj =
     res\<lparr>headersSent := True, statusCode := code,
         resHeaders := AList.update ''Content-Type'' ''application/json'' (resHeaders res),
         resBody := Some obj\<rparr>"

text \<open>
  \<open>handleManagementEndpoints\<close>: \<open>None\<close> when it returns false. On the admin route the key
  is read without the final \<open>|| ''\<close>: with neither header it is \<open>undefined\<close>, and
  \<open>validateApiKey\<close> throws on reading its length.
\<close>

definition handleManagementEndpoints ::
  "ConvexConfigOptions \<Rightarrow> int \<Rightarrow> processInfo \<Rightarrow> request \<Rightarrow> response \<Rightarrow> serverState
     \<Rightarrow> outcome option" where
  "handleManagementEndpoints cfg now proc req res st =
     (let path = urlPath (reqUrl req) in
      if reqMethod req \<noteq> ''GET'' then None
      else if path = ''/health'' then Some (handleHealthCheck cfg now proc res st)
      else if path = ''/metrics'' then Some (handleMetrics cfg now proc res st)
      else if path = ''/version'' then Some (handleVersion now proc res st)
      else if path = ''/api/config'' then Some (handleGetConfig cfg now res st)
      else if path = ''/api/users/active'' then
        (if isEnabled cfg then
           (case (case truthy (header req ''x-api-key'') of
                    Some k \<Rightarrow> Some k
                  | None \<Rightarrow> map_option (\<lambda>a. replaceFirst a ''Bearer '' []) (header req ''authorization'')) of
              None \<Rightarrow>
                Some (Uncaught (Error ''TypeError: Cannot read properties of undefined (reading 'length')'')
                        res st)
            | Some k \<Rightarrow>
                if \<not> validateApiKey cfg k then
                  Some (Finished
                          (writeJson res 401
                             (JObj [(''error'', JStr ''Unauthorized''),
                                    (''message'', JStr ''Invalid or missing API key'')]))
                          st)
                else Some (handleActiveUsers now res st))
         else Some (handleActiveUsers now res st))
      else None)"

section \<open>The HTTP transport (transports/http)\<close>

text \<open>
  The request listener of \<open>connect\<close>. The protocol transport is outside this repository:
  \<open>transport\<close> is its \<open>handleRequest\<close>.
\<close>

text \<open>
  What the listener does once the size check has passed: the management endpoints, then
  the token endpoints, then the check of the \<open>Accept\<close> header and the transport.
\<close>

definition routeRequest ::
  "ConvexConfigOptions \<Rightarrow> int \<Rightarrow> processInfo \<Rightarrow> (request \<Rightarrow> continuation) \<Rightarrow> request
     \<Rightarrow> continuation" where
  "routeRequest cfg now proc transport req res st =
     (case handleManagementEndpoints cfg now proc req res st of
        Some out \<Rightarrow> out
      | None \<Rightarrow>
          (case handleTokenEndpoints cfg now req res st of
             Some out \<Rightarrow> out
           | None \<Rightarrow>
               if (reqMethod req = ''POST'' \<or> reqMethod req = ''GET'')
                  \<and> (case truthy (header req ''accept'') of
                        None \<Rightarrow> False
                      | Some acceptHeader \<Rightarrow>
                          \<not> includesStr acceptHeader ''application/json''
                          \<and> \<not> includesStr acceptHeader ''text/event-stream''
                          \<and> \<not> includesStr acceptHeader ''*/*'')
               then
                 Finished
                   (writeJson res 406
                      (JObj [(''error'', JStr ''Not Acceptable''),
                             (''message'',
                              JStr ''Accept header must include application/json or text/event-stream'')]))
                   st
               else
                 (case transport req res st of
                    Finished res' st' \<Rightarrow> Finished res' st'
                  | Uncaught e res' st' \<Rightarrow>
                      if \<not> headersSent res' then
                        Finished
                          (writeJson res' 500
                             (JObj [(''jsonrpc'', JStr ''2.0''),
                                    (''error'', JObj [(''code'', JNum (- 32603)),
                                                      (''message'', JStr ''Internal server error'')]),
                                    (''id'', JNull)]))
                          st'
                      else Finished res' st')))"

text \<open>
  What runs after the middleware: nothing when the middleware has sent the response;
  otherwise the size check, made in line against 10 MiB, and then \<open>routeRequest\<close>.
\<close>

definition afterMiddleware ::
  "ConvexConfigOptions \<Rightarrow> int \<Rightarrow> processInfo \<Rightarrow> (request \<Rightarrow> continuation) \<Rightarrow> request
     \<Rightarrow> continuation" where
  "afterMiddleware cfg now proc transport req res st =
     (if headersSent res then Finished res st
      else
        let maxRequestSize = 10 * 1024 * 1024 in
        if exceeds (contentLength req) maxRequestSize then
          Finished
            (writeJson res 413
               (JObj [(''error'', JStr ''Payload Too Large''),
                      (''message'', JStr ''Request size exceeds maximum allowed size'')]))
            st
        else routeRequest cfg now proc transport req res st)"

definition requestListener ::
  "ConvexConfigOptions \<Rightarrow> int \<Rightarrow> processInfo \<Rightarrow> (request \<Rightarrow> continuation) \<Rightarrow> request
     \<Rightarrow> serverState \<Rightarrow> outcome" where
  "requestListener cfg now proc transport req st =
     composeMiddleware [corsMiddleware cfg now, securityHeaders] req
       (afterMiddleware cfg now proc transport req) newResponse st"

section \<open>Observing outcomes\<close>

definition outcomeState :: "outcome \<Rightarrow> serverState" where
  "outcomeState out = (case out of Finished res st \<Rightarrow> st | Uncaught e res st \<Rightarrow> st)"

definition outcomeResponse :: "outcome \<Rightarrow> response" where
  "outcomeResponse out = (case out of Finished res st \<Rightarrow> res | Uncaught e res st \<Rightarrow> res)"

definition isFinished :: "outcome \<Rightarrow> bool" where
  "isFinished out = (case out of Finished res st \<Rightarrow> True | Uncaught e res st \<Rightarrow> False)"

text \<open>A member of the JSON object a response carries.\<close>

definition bodyMember :: "response \<Rightarrow> string \<Rightarrow> json option" where
  "bodyMember res name =
     (case resBody res of Some (JObj kvs) \<Rightarrow> map_of kvs name | _ \<Rightarrow> None)"

section \<open>The specification's words, for comparison with the code\<close>

text \<open>
  The fixed-window check as the specification words it, with the comparison the code
  makes (a window is over when \<open>now\<close> is past \<open>windowResetAt\<close>): the counter after the
  check, whether the call is rejected, and the seconds to wait.
\<close>

definition fixedWindowCheck ::
  "RateLimitEntry option \<Rightarrow> int \<Rightarrow> int \<Rightarrow> int \<Rightarrow> RateLimitEntry \<times> bool \<times> int" where
  "fixedWindowCheck counter now window limit =
     (let c0 = (case counter of
                  None \<Rightarrow> \<lparr>count = 0, resetTime = now + window\<rparr>
                | Some c \<Rightarrow> if now > resetTime c then \<lparr>count = 0, resetTime = now + window\<rparr> else c);
          c1 = c0\<lparr>count := count c0 + 1\<rparr>
      in (c1, count c1 > limit, \<lceil>real_of_int (resetTime c1 - now) / 1000\<rceil>))"

text \<open>
  The first field that the store's validation refuses, in the order of its checks.
\<close>

definition offendingField :: "string \<Rightarrow> UserTokens \<Rightarrow> string option" where
  "offendingField userId t =
     (if userId = [] then Some ''userId''
      else if accessToken t = [] then Some ''accessToken''
      else if refreshToken t = [] then Some ''refreshToken''
      else if expiresAt t = 0 then Some ''expiresAt''
      else if scope t = [] then Some ''scope''
      else if tokenType t = [] then Some ''tokenType''
      else None)"

text \<open>The keys that the cleanup deletes while it walks the entries \<open>es\<close>.\<close>

definition staleKeys :: "int \<Rightarrow> (string \<times> TokenEntry) list \<Rightarrow> string list" where
  "staleKeys threshold es = map fst (filter (\<lambda>p. lastAccessed (snd p) < threshold) es)"

section \<open>Sample data\<close>

definition sampleTokens :: UserTokens where
  "sampleTokens = \<lparr>accessToken = ''ya29'', refreshToken = ''1//0g'', expiresAt = 2000000000000,
     scope = ''calendar'', tokenType = ''Bearer''\<rparr>"

definition sampleConfig :: ConvexConfigOptions where
  "sampleConfig =
     \<lparr>enabled = True, apiKey = ''0123456789abcdef0123456789abcdef'',
      allowedOrigins = [''https://app.example.com''],
      rateLimit = \<lparr>maxRequestsPerUser = 100, maxTokenInjectionsPerIp = 10, windowMs = 900000\<rparr>,
      tokenValidation = \<lparr>minExpiryBufferMs = 300000, expiryWarningThresholdMs = 600000\<rparr>,
      cleanup = \<lparr>intervalMs = 1800000, staleThresholdMs = 86400000\<rparr>\<rparr>"

definition sampleRequest :: request where
  "sampleRequest = \<lparr>reqMethod = ''POST'', reqUrl = ''/api/tokens'', reqHeaders = [],
     remoteAddress = Some ''10.0.0.1'', reqBody = Inr (JObj [])\<rparr>"

definition sampleProc :: processInfo where
  "sampleProc = \<lparr>uptime = 12, heapUsed = 1000, heapTotal = 2000, external = 10, rss = 3000,
     arrayBuffers = 5, pid = 4, cpuUser = 7, cpuSystem = 8, nodeVersion = ''v18'',
     platform = ''linux''\<rparr>"

definition idle :: continuation where
  "idle res st = Finished res st"

definition idleTransport :: "request \<Rightarrow> continuation" where
  "idleTransport req res st = Finished res st"

definition emptyState :: serverState where
  "emptyState = \<lparr>tokenStore = [], byUser = [], byIp = []\<rparr>"

definition boundaryState :: serverState where
  "boundaryState = \<lparr>tokenStore = [], byUser = [],
     byIp = [(''10.0.0.1'', \<lparr>count = 10, resetTime = 1000\<rparr>)]\<rparr>"

definition fullWindowState :: serverState where
  "fullWindowState = \<lparr>tokenStore = [], byUser = [],
     byIp = [(''10.0.0.1'', \<lparr>count = 10, resetTime = 2500\<rparr>)]\<rparr>"

definition staleState :: serverState where
  "staleState =
     \<lparr>tokenStore = [(''u1'', \<lparr>tokens = sampleTokens, lastUpdated = 1000, lastAccessed = 1000\<rparr>)],
      byUser = [], byIp = []\<rparr>"

definition heldState :: serverState where
  "heldState =
     \<lparr>tokenStore =
        [(''u1'', \<lparr>tokens = sampleTokens\<lparr>expiresAt := 1000000 + 3600000\<rparr>,
                   lastUpdated = 1000000, lastAccessed = 1000000\<rparr>)],
      byUser = [], byIp = []\<rparr>"

definition injectBody :: "int \<Rightarrow> (string \<times> json) list" where
  "injectBody expiry =
     [(''userId'', JStr ''u1''), (''accessToken'', JStr ''ya29''), (''refreshToken'', JStr ''1//0g''),
      (''expiresAt'', JNum (of_int expiry)), (''scope'', JStr ''calendar''),
      (''tokenType'', JStr ''Bearer'')]"

definition injectRequest :: "int \<Rightarrow> request" where
  "injectRequest expiry = sampleRequest\<lparr>reqBody := Inr (JObj (injectBody expiry))\<rparr>"

definition healthRequest :: request where
  "healthRequest = sampleRequest\<lparr>reqMethod := ''GET'', reqUrl := ''/health''\<rparr>"

section \<open>The store keeps distinct keys\<close>

lemma distinct_setUserTokens:
  "distinct (map fst st) \<Longrightarrow> distinct (map fst (snd (setUserTokens userId t now st)))"
  by (simp add: setUserTokens_def distinct_update split: sum.splits)

lemma distinct_getUserTokens:
  "distinct (map fst st) \<Longrightarrow> distinct (map fst (snd (getUserTokens userId now st)))"
  by (simp add: getUserTokens_def distinct_update split: option.splits)

lemma distinct_removeUserTokens:
  "distinct (map fst st) \<Longrightarrow> distinct (map fst (snd (removeUserTokens userId st)))"
  by (simp add: removeUserTokens_def distinct_delete)

section \<open>Properties of the token provider\<close>

text \<open>
  C8. For every credential and every clock reading, \<open>isTokenExpired\<close> is true exactly when
  \<open>expiresAt \<le> now + bufferMs\<close> with a buffer of five minutes (300000 ms), and a
  credential with \<open>expiresAt = now + bufferMs\<close> counts as expired.
\<close>

theorem isTokenExpired_iff:
  "(isTokenExpired t now \<longleftrightarrow> expiresAt t \<le> now + 300000)
   \<and> isTokenExpired (t\<lparr>expiresAt := now + 300000\<rparr>) now"
  by (simp add: isTokenExpired_def)

subsection \<open>The stale-token cleanup\<close>

lemma cleanupLoop_filter:
  "cleanupLoop threshold es st n =
     (filter (\<lambda>p. fst p \<notin> set (staleKeys threshold es)) st,
      n + length (staleKeys threshold es))"
proof (induction es arbitrary: st n)
  case Nil
  then show ?case by (simp add: staleKeys_def)
next
  case (Cons p es)
  obtain k e where p: "p = (k, e)" by (cases p)
  show ?case
    unfolding p
    by (auto simp: Cons.IH staleKeys_def AList.delete_eq case_prod_unfold intro!: filter_cong)
qed

lemma staleKeys_distinct:
  assumes "distinct (map fst st)" and "p \<in> set st"
  shows "fst p \<in> set (staleKeys threshold st) \<longleftrightarrow> lastAccessed (snd p) < threshold"
proof
  assume "fst p \<in> set (staleKeys threshold st)"
  then obtain q where q: "q \<in> set st" "lastAccessed (snd q) < threshold" "fst q = fst p"
    by (auto simp: staleKeys_def)
  from assms q have "q = p"
    by (metis eq_key_imp_eq_value prod.collapse)
  with q show "lastAccessed (snd p) < threshold" by simp
next
  assume "lastAccessed (snd p) < threshold"
  with assms(2) show "fst p \<in> set (staleKeys threshold st)"
    by (auto simp: staleKeys_def)
qed

lemma cleanupStaleTokens_filter:
  assumes "distinct (map fst st)"
  shows "fst (cleanupStaleTokens now st) =
           filter (\<lambda>p. \<not> lastAccessed (snd p) < now - STALE_TOKEN_THRESHOLD_MS) st"
  unfolding cleanupStaleTokens_def Let_def cleanupLoop_filter fst_conv
  by (rule filter_cong) (simp_all add: staleKeys_distinct [OF assms])

lemma map_of_filter_distinct:
  "distinct (map fst st) \<Longrightarrow>
   map_of (filter P st) k =
     (case map_of st k of None \<Rightarrow> None | Some e \<Rightarrow> if P (k, e) then Some e else None)"
proof (induction st)
  case Nil
  then show ?case by simp
next
  case (Cons p st)
  obtain k' e' where p: "p = (k', e')" by (cases p)
  from Cons.prems have nin: "map_of st k' = None"
    unfolding p by (simp add: map_of_eq_None_iff)
  from Cons.prems have d: "distinct (map fst st)" unfolding p by simp
  show ?case
  proof (cases "k = k'")
    case True
    have "map_of (filter P st) k' = None"
      using nin by (auto simp: map_of_eq_None_iff)
    with True show ?thesis unfolding p by (simp add: nin)
  next
    case False
    with Cons.IH [OF d] show ?thesis unfolding p by simp
  qed
qed

lemma distinct_cleanupStaleTokens:
  assumes "distinct (map fst st)"
  shows "distinct (map fst (fst (cleanupStaleTokens now st)))"
  unfolding cleanupStaleTokens_filter [OF assms] using assms by (rule distinct_map_filter)

lemma cleanupStaleTokens_count:
  "snd (cleanupStaleTokens now st) =
     length (filter (\<lambda>p. lastAccessed (snd p) < now - STALE_TOKEN_THRESHOLD_MS) st)"
  by (simp add: cleanupStaleTokens_def Let_def cleanupLoop_filter staleKeys_def)

text \<open>
  C7. On a store (a map: distinct keys), \<open>cleanupStaleTokens\<close> removes exactly the entries
  whose \<open>lastAccessed\<close> is strictly below \<open>now - 24h\<close> (86400000 ms): what is left is the
  store filtered by \<open>\<not> lastAccessed < now - 24h\<close>, so every surviving entry is there
  unchanged and in its place, and the number of deletions is the number of stale entries.
\<close>

theorem cleanupStaleTokens_exact:
  assumes "distinct (map fst st)"
  shows "fst (cleanupStaleTokens now st) =
           filter (\<lambda>p. \<not> lastAccessed (snd p) < now - 86400000) st
         \<and> (\<forall>k. map_of (fst (cleanupStaleTokens now st)) k =
                (case map_of st k of
                   None \<Rightarrow> None
                 | Some e \<Rightarrow> if lastAccessed e < now - 86400000 then None else Some e))
         \<and> snd (cleanupStaleTokens now st) =
             length (filter (\<lambda>p. lastAccessed (snd p) < now - 86400000) st)"
proof -
  have th: "STALE_TOKEN_THRESHOLD_MS = 86400000"
    by (simp add: STALE_TOKEN_THRESHOLD_MS_def)
  have a: "fst (cleanupStaleTokens now st) =
             filter (\<lambda>p. \<not> lastAccessed (snd p) < now - 86400000) st"
    using cleanupStaleTokens_filter [OF assms, of now] by (simp add: th)
  have b: "map_of (fst (cleanupStaleTokens now st)) k =
             (case map_of st k of
                None \<Rightarrow> None
              | Some e \<Rightarrow> if lastAccessed e < now - 86400000 then None else Some e)" for k
    unfolding a map_of_filter_distinct [OF assms] by (simp split: option.splits)
  have c: "snd (cleanupStaleTokens now st) =
             length (filter (\<lambda>p. lastAccessed (snd p) < now - 86400000) st)"
    using cleanupStaleTokens_count [of now st] by (simp add: th)
  from a b c show ?thesis by blast
qed

text \<open>
  The example of the claim: with the clock at 1000000000000, the entry last accessed 25
  hours ago is removed and the one accessed 23 hours ago survives, untouched.
\<close>

theorem cleanupStaleTokens_exact_witness:
  "cleanupStaleTokens 1000000000000
     [(''old'', \<lparr>tokens = sampleTokens, lastUpdated = 0, lastAccessed = 1000000000000 - 25 * 3600000\<rparr>),
      (''recent'', \<lparr>tokens = sampleTokens, lastUpdated = 0, lastAccessed = 1000000000000 - 23 * 3600000\<rparr>)]
   = ([(''recent'', \<lparr>tokens = sampleTokens, lastUpdated = 0, lastAccessed = 1000000000000 - 23 * 3600000\<rparr>)], 1)"
proof -
  let ?st = "[(''old'', \<lparr>tokens = sampleTokens, lastUpdated = 0, lastAccessed = 1000000000000 - 25 * 3600000\<rparr>),
      (''recent'', \<lparr>tokens = sampleTokens, lastUpdated = 0, lastAccessed = 1000000000000 - 23 * 3600000\<rparr>)]"
  have d: "distinct (map fst ?st)" by simp
  show ?thesis
    using cleanupStaleTokens_exact [OF d, of 1000000000000]
    by (simp add: prod_eq_iff)
qed

subsection \<open>Validation on write\<close>

text \<open>
  C1, as the claim states it, fails: the store's check of \<open>expiresAt\<close> is \<open>!tokens.expiresAt\<close>,
  which refuses zero only. A credential whose expiry is \<open>-1\<close> (not a positive integer) is
  accepted and written.
\<close>

theorem setUserTokens_negative_expiry_counterexample:
  "\<not> 0 < expiresAt (sampleTokens\<lparr>expiresAt := - 1\<rparr>)
   \<and> setUserTokens ''u1'' (sampleTokens\<lparr>expiresAt := - 1\<rparr>) 5 [] =
       (Inr (), [(''u1'', \<lparr>tokens = sampleTokens\<lparr>expiresAt := - 1\<rparr>, lastUpdated = 5, lastAccessed = 5\<rparr>)])"
  by (simp add: setUserTokens_def validateTokens_def sampleTokens_def)

text \<open>
  C1, amended. \<open>setUserTokens\<close> refuses a write exactly when the tenant id, \<open>accessToken\<close>,
  \<open>refreshToken\<close>, \<open>scope\<close> or \<open>tokenType\<close> is empty or \<open>expiresAt\<close> is zero; the error
  names the first such field (\<open>Invalid <field>: must be ...\<close>); a refused write leaves the
  store as it was, and an accepted one replaces the tenant's entry, stamped with \<open>now\<close>.
\<close>

theorem setUserTokens_validation:
  "(fst (setUserTokens userId t now st) =
      (case offendingField userId t of
         None \<Rightarrow> Inr ()
       | Some f \<Rightarrow>
           Inl (Error (''Invalid '' @ f @ '': must be ''
                       @ (if f = ''expiresAt'' then ''a number''
                          else if f = ''scope'' \<or> f = ''tokenType'' then ''a string''
                          else ''a non-empty string'')))))
   \<and> (offendingField userId t = None \<longleftrightarrow>
        userId \<noteq> [] \<and> accessToken t \<noteq> [] \<and> refreshToken t \<noteq> [] \<and> expiresAt t \<noteq> 0
        \<and> scope t \<noteq> [] \<and> tokenType t \<noteq> [])
   \<and> snd (setUserTokens userId t now st) =
        (if offendingField userId t = None
         then AList.update userId \<lparr>tokens = t, lastUpdated = now, lastAccessed = now\<rparr> st
         else st)"
  by (simp add: setUserTokens_def validateTokens_def offendingField_def)

theorem setUserTokens_validation_witness:
  "setUserTokens ''u1'' (sampleTokens\<lparr>scope := []\<rparr>) 5
     [(''u2'', \<lparr>tokens = sampleTokens, lastUpdated = 1, lastAccessed = 2\<rparr>)] =
     (Inl (Error ''Invalid scope: must be a string''),
      [(''u2'', \<lparr>tokens = sampleTokens, lastUpdated = 1, lastAccessed = 2\<rparr>)])
   \<and> setUserTokens ''u1'' sampleTokens 5 [] =
     (Inr (), [(''u1'', \<lparr>tokens = sampleTokens, lastUpdated = 5, lastAccessed = 5\<rparr>)])"
  using setUserTokens_validation [of "''u1''" "sampleTokens\<lparr>scope := []\<rparr>" 5
      "[(''u2'', \<lparr>tokens = sampleTokens, lastUpdated = 1, lastAccessed = 2\<rparr>)]"]
    setUserTokens_validation [of "''u1''" sampleTokens 5 "[]"]
  by (simp add: offendingField_def sampleTokens_def prod_eq_iff)

section \<open>Properties of the configuration\<close>

lemma xor_nat_eq_0: "(a::nat) XOR b = 0 \<longleftrightarrow> a = b"
proof
  assume h: "a XOR b = 0"
  have "bit a n = bit b n" for n
  proof -
    from h have "bit (a XOR b) n = bit (0::nat) n" by simp
    then show ?thesis by (simp add: bit_xor_iff)
  qed
  then show "a = b" by (rule bit_eqI)
next
  assume "a = b" then show "a XOR b = 0" by simp
qed

lemma keyLoop_zero:
  "length ps = length ks \<Longrightarrow> keyLoop ps ks r = 0 \<longleftrightarrow> r = 0 \<and> ps = ks"
proof (induction ps ks arbitrary: r rule: list_induct2)
  case Nil
  then show ?case by simp
next
  case (Cons p ps k ks)
  show ?case
    by (simp add: Cons.IH or_eq_0_iff xor_nat_eq_0)
qed

lemma validateApiKey_eq:
  assumes "enabled cfg"
  shows "validateApiKey cfg providedKey \<longleftrightarrow> providedKey = apiKey cfg"
proof (cases "length providedKey = length (apiKey cfg)")
  case True
  with assms show ?thesis by (simp add: validateApiKey_def keyLoop_zero)
next
  case False
  with assms show ?thesis by (auto simp: validateApiKey_def)
qed

text \<open>
  C2. With admission control enabled, \<open>validateApiKey\<close> accepts a key exactly when it is
  the configured secret: a key of another length is refused (by the length test, before
  the loop), and a key of the same length that differs at some position is refused.
\<close>

theorem validateApiKey_exact:
  assumes "enabled cfg"
  shows "(validateApiKey cfg providedKey \<longleftrightarrow> providedKey = apiKey cfg)
         \<and> (length providedKey \<noteq> length (apiKey cfg) \<longrightarrow> \<not> validateApiKey cfg providedKey)
         \<and> (length providedKey = length (apiKey cfg)
              \<and> (\<exists>i < length providedKey. providedKey ! i \<noteq> apiKey cfg ! i)
            \<longrightarrow> \<not> validateApiKey cfg providedKey)"
  using validateApiKey_eq [OF assms, of providedKey] by auto

theorem validateApiKey_exact_witness:
  "enabled sampleConfig
   \<and> validateApiKey sampleConfig ''0123456789abcdef0123456789abcdef''
   \<and> \<not> validateApiKey sampleConfig ''0123456789abcdef0123456789abcdeX''
   \<and> \<not> validateApiKey sampleConfig ''0123456789abcdef''"
proof -
  have h: "enabled sampleConfig" by (simp add: sampleConfig_def)
  show ?thesis
    using h validateApiKey_exact [OF h, of "''0123456789abcdef0123456789abcdef''"]
      validateApiKey_exact [OF h, of "''0123456789abcdef0123456789abcdeX''"]
      validateApiKey_exact [OF h, of "''0123456789abcdef''"]
    by (simp add: sampleConfig_def)
qed

lemma sampleConfig_valid: "validate sampleConfig = Inr ()"
  by (simp add: validate_def sampleConfig_def)

section \<open>Properties of the middleware\<close>

lemma headersSent_setHeader [simp]: "headersSent (setHeader n v res) = headersSent res"
  by (simp add: setHeader_def)

lemma statusCode_setHeader [simp]: "statusCode (setHeader n v res) = statusCode res"
  by (simp add: setHeader_def)

lemma map_of_setHeader:
  "map_of (resHeaders (setHeader n v res)) k = (if k = n then Some v else map_of (resHeaders res) k)"
  by (simp add: setHeader_def update_conv')

lemma fresh_newResponse: "\<not> headersSent newResponse"
  by (simp add: newResponse_def)

subsection \<open>The origin stage\<close>

text \<open>
  C9. With admission control enabled and no wildcard among the allowed origins, a request
  that is not a preflight and carries no \<open>Origin\<close> header is ended by \<open>corsMiddleware\<close>
  with the 403 answer, whatever its continuation is; the request listener as a whole
  returns that answer and leaves the state (token store and both rate-limit stores) as it
  was, whatever the key, the route and the transport are.
\<close>

theorem cors_missing_origin_forbidden:
  assumes "isEnabled cfg" and "''*'' \<notin> set (allowedOrigins cfg)"
    and "reqMethod req \<noteq> ''OPTIONS''" and "header req ''origin'' = None"
  shows "corsMiddleware cfg now req next res st =
           Finished (sendJsonError res 403 ''Forbidden'' ''Origin not allowed'' now) st
         \<and> requestListener cfg now proc transport req st =
           Finished (sendJsonError newResponse 403 ''Forbidden'' ''Origin not allowed'' now) st
         \<and> statusCode (sendJsonError newResponse 403 ''Forbidden'' ''Origin not allowed'' now) = 403"
  using assms
  by (simp add: corsMiddleware_def requestListener_def truthy_def sendJsonError_def newResponse_def)

theorem cors_missing_origin_forbidden_witness:
  "isEnabled sampleConfig \<and> ''*'' \<notin> set (allowedOrigins sampleConfig)
   \<and> reqMethod sampleRequest \<noteq> ''OPTIONS'' \<and> header sampleRequest ''origin'' = None
   \<and> requestListener sampleConfig 1000 sampleProc idleTransport sampleRequest emptyState =
       Finished (sendJsonError newResponse 403 ''Forbidden'' ''Origin not allowed'' 1000) emptyState"
proof -
  have h1: "isEnabled sampleConfig" by (simp add: isEnabled_def sampleConfig_def)
  have h2: "''*'' \<notin> set (allowedOrigins sampleConfig)" by (simp add: sampleConfig_def)
  have h3: "reqMethod sampleRequest \<noteq> ''OPTIONS''" by (simp add: sampleRequest_def)
  have h4: "header sampleRequest ''origin'' = None" by (simp add: header_def sampleRequest_def)
  show ?thesis
    using h1 h2 h3 h4
      cors_missing_origin_forbidden [OF h1 h2 h3 h4, of 1000 idle newResponse emptyState
        sampleProc idleTransport]
    by simp
qed

lemma corsFinish_cases:
  "corsFinish req next res st =
     (if reqMethod req = ''OPTIONS''
      then Finished
             ((setHeader ''Access-Control-Max-Age'' ''86400''
                (setHeader ''Access-Control-Allow-Headers'' ''Content-Type, Authorization, X-API-Key''
                  (setHeader ''Access-Control-Allow-Methods'' ''GET, POST, DELETE, OPTIONS'' res)))
              \<lparr>headersSent := True, statusCode := 204\<rparr>) st
      else next
             (setHeader ''Access-Control-Max-Age'' ''86400''
                (setHeader ''Access-Control-Allow-Headers'' ''Content-Type, Authorization, X-API-Key''
                  (setHeader ''Access-Control-Allow-Methods'' ''GET, POST, DELETE, OPTIONS'' res))) st)"
  by (simp add: corsFinish_def Let_def)

text \<open>
  What the origin stage does to a response that has not been sent: it ends the request
  with 403 or with the 204 of a preflight, or calls its continuation with a response that
  has still not been sent and the same state.
\<close>

lemma corsMiddleware_outcome:
  assumes "\<not> headersSent res"
  shows "(\<exists>res'. corsMiddleware cfg now req next res st = Finished res' st \<and> headersSent res'
            \<and> (statusCode res' = 403 \<or> statusCode res' = 204 \<and> reqMethod req = ''OPTIONS''))
         \<or> (\<exists>res'. corsMiddleware cfg now req next res st = next res' st \<and> \<not> headersSent res')"
  using assms
  by (auto simp: corsMiddleware_def corsFinish_cases sendJsonError_def split: option.splits)

subsection \<open>The payload-size check\<close>

lemma parseInt_zero: "parseInt ''0'' = Some 0"
  by (simp add: parseInt_def isWhiteSpace_def isDigit_def digitsValue_def)

lemma parseInt_empty: "parseInt [] = None"
  by (simp add: parseInt_def)

lemma exceeds_contentLength:
  assumes "0 \<le> maxSize"
  shows "exceeds (contentLength req) maxSize \<longleftrightarrow>
           (\<exists>h n. header req ''content-length'' = Some h \<and> parseInt h = Some n \<and> n > maxSize)"
proof (cases "header req ''content-length''")
  case None
  with assms show ?thesis
    by (simp add: exceeds_def contentLength_def truthy_def parseInt_zero)
next
  case (Some h)
  show ?thesis
  proof (cases "h = []")
    case True
    with Some assms show ?thesis
      by (simp add: exceeds_def contentLength_def truthy_def parseInt_zero parseInt_empty)
  next
    case False
    with Some show ?thesis
      by (auto simp: exceeds_def contentLength_def truthy_def split: option.splits)
  qed
qed

text \<open>
  C10. The size check decides on the declared size alone. For a maximum that is a size (not
  negative), \<open>requestSizeLimit\<close> calls its continuation, with the response and the state
  untouched, when the \<open>Content-Length\<close> header is absent or \<open>parseInt\<close> finds no number
  in it; when the header parses to \<open>n\<close>, it answers 413 exactly if \<open>n > maxSize\<close>. The check
  that the request listener makes in line, against 10 MiB, does the same: on a response
  not yet sent, \<open>afterMiddleware\<close> goes on to \<open>routeRequest\<close> when the header is absent or
  holds no number, and answers 413 exactly when the header parses to a number above 10
  MiB. So the listener as a whole is either stopped by the origin stage (403, or the 204
  of a preflight) or does what the declared size says. The body of the request is not
  consulted.
\<close>

theorem requestSizeLimit_declared_only:
  assumes "0 \<le> maxSize"
  shows "requestSizeLimit maxSize now req next res st =
           (case (case header req ''content-length'' of None \<Rightarrow> None | Some h \<Rightarrow> parseInt h) of
              None \<Rightarrow> next res st
            | Some n \<Rightarrow>
                if n > maxSize
                then Finished
                       (sendJsonError res 413 ''Payload Too Large''
                          (''Request size exceeds maximum allowed size of '' @ showInt maxSize @ '' bytes'')
                          now) st
                else next res st)
         \<and> (\<not> headersSent res \<longrightarrow>
              afterMiddleware cfg now proc transport req res st =
                (case (case header req ''content-length'' of None \<Rightarrow> None | Some h \<Rightarrow> parseInt h) of
                   None \<Rightarrow> routeRequest cfg now proc transport req res st
                 | Some n \<Rightarrow>
                     if n > 10 * 1024 * 1024
                     then Finished
                            (writeJson res 413
                               (JObj [(''error'', JStr ''Payload Too Large''),
                                      (''message'', JStr ''Request size exceeds maximum allowed size'')]))
                            st
                     else routeRequest cfg now proc transport req res st))
         \<and> ((\<exists>res'. requestListener cfg now proc transport req st = Finished res' st
                  \<and> headersSent res'
                  \<and> (statusCode res' = 403 \<or> statusCode res' = 204 \<and> reqMethod req = ''OPTIONS''))
            \<or> (\<exists>res'. \<not> headersSent res'
                  \<and> requestListener cfg now proc transport req st =
                      (case (case header req ''content-length'' of None \<Rightarrow> None | Some h \<Rightarrow> parseInt h) of
                         None \<Rightarrow> routeRequest cfg now proc transport req res' st
                       | Some n \<Rightarrow>
                           if n > 10 * 1024 * 1024
                           then Finished
                                  (writeJson res' 413
                                     (JObj [(''error'', JStr ''Payload Too Large''),
                                            (''message'', JStr ''Request size exceeds maximum allowed size'')]))
                                  st
                           else routeRequest cfg now proc transport req res' st)))"
proof -
  have ex: "exceeds (contentLength req) m \<longleftrightarrow>
          (case (case header req ''content-length'' of None \<Rightarrow> None | Some h \<Rightarrow> parseInt h) of
             None \<Rightarrow> False | Some n \<Rightarrow> n > m)" if "0 \<le> m" for m
    unfolding exceeds_contentLength [OF that] by (auto split: option.splits)
  have stage: "requestSizeLimit maxSize now req next res st =
           (case (case header req ''content-length'' of None \<Rightarrow> None | Some h \<Rightarrow> parseInt h) of
              None \<Rightarrow> next res st
            | Some n \<Rightarrow>
                if n > maxSize
                then Finished
                       (sendJsonError res 413 ''Payload Too Large''
                          (''Request size exceeds maximum allowed size of '' @ showInt maxSize @ '' bytes'')
                          now) st
                else next res st)"
    using ex [OF assms] by (simp add: requestSizeLimit_def split: option.splits)
  have ten: "(0::int) \<le> 10 * 1024 * 1024" by simp
  have listener: "afterMiddleware cfg now proc transport req res st =
                (case (case header req ''content-length'' of None \<Rightarrow> None | Some h \<Rightarrow> parseInt h) of
                   None \<Rightarrow> routeRequest cfg now proc transport req res st
                 | Some n \<Rightarrow>
                     if n > 10 * 1024 * 1024
                     then Finished
                            (writeJson res 413
                               (JObj [(''error'', JStr ''Payload Too Large''),
                                      (''message'', JStr ''Request size exceeds maximum allowed size'')]))
                            st
                     else routeRequest cfg now proc transport req res st)"
    if "\<not> headersSent res"
    for res
    using that ex [OF ten] by (simp add: afterMiddleware_def Let_def split: option.splits)
  let ?k = "composeMiddleware [securityHeaders] req (afterMiddleware cfg now proc transport req)"
  let ?secured = "\<lambda>r. setHeader ''Content-Security-Policy''
          ''default-src 'self'; script-src 'self'; style-src 'self' 'unsafe-inline'; img-src 'self' data:;''
         (setHeader ''Referrer-Policy'' ''strict-origin-when-cross-origin''
           (setHeader ''X-XSS-Protection'' ''1; mode=block''
             (setHeader ''X-Content-Type-Options'' ''nosniff''
               (setHeader ''X-Frame-Options'' ''DENY'' r))))"
  have k: "?k r s = afterMiddleware cfg now proc transport req (?secured r) s" for r s
    by (simp add: securityHeaders_def)
  have rl: "requestListener cfg now proc transport req st = corsMiddleware cfg now req ?k newResponse st"
    by (simp add: requestListener_def)
  from corsMiddleware_outcome [OF fresh_newResponse, of cfg now req ?k st]
  have whole: "(\<exists>res'. requestListener cfg now proc transport req st = Finished res' st
                  \<and> headersSent res'
                  \<and> (statusCode res' = 403 \<or> statusCode res' = 204 \<and> reqMethod req = ''OPTIONS''))
            \<or> (\<exists>res'. \<not> headersSent res'
                  \<and> requestListener cfg now proc transport req st =
                      (case (case header req ''content-length'' of None \<Rightarrow> None | Some h \<Rightarrow> parseInt h) of
                         None \<Rightarrow> routeRequest cfg now proc transport req res' st
                       | Some n \<Rightarrow>
                           if n > 10 * 1024 * 1024
                           then Finished
                                  (writeJson res' 413
                                     (JObj [(''error'', JStr ''Payload Too Large''),
                                            (''message'', JStr ''Request size exceeds maximum allowed size'')]))
                                  st
                           else routeRequest cfg now proc transport req res' st))"
  proof
    assume "\<exists>res'. corsMiddleware cfg now req ?k newResponse st = Finished res' st \<and> headersSent res'
            \<and> (statusCode res' = 403 \<or> statusCode res' = 204 \<and> reqMethod req = ''OPTIONS'')"
    then show ?thesis unfolding rl by blast
  next
    assume "\<exists>res'. corsMiddleware cfg now req ?k newResponse st = ?k res' st \<and> \<not> headersSent res'"
    then obtain r where r: "corsMiddleware cfg now req ?k newResponse st = ?k r st" "\<not> headersSent r"
      by blast
    from r(2) have unsent: "\<not> headersSent (?secured r)" by simp
    have "requestListener cfg now proc transport req st =
            afterMiddleware cfg now proc transport req (?secured r) st"
      unfolding rl r(1) k ..
    with listener [OF unsent] unsent show ?thesis by metis
  qed
  from stage listener whole show ?thesis by blast
qed

lemma routeRequest_health:
  "statusCode (outcomeResponse
     (routeRequest sampleConfig 0 sampleProc idleTransport (healthRequest\<lparr>reqHeaders := hs\<rparr>)
        newResponse emptyState)) = 200"
  by (simp add: routeRequest_def handleManagementEndpoints_def healthRequest_def sampleRequest_def
      urlPath_def splitFirst_def handleHealthCheck_def sendJsonSuccess_def newResponse_def
      outcomeResponse_def Let_def)

text \<open>
  No header, a header that starts with digits (\<open>12 MB\<close> is read as 12) and a header
  without a number all pass a limit of 10 MiB; a declared 10485761 is answered with 413.
  In the listener, a health request with no header or with the header \<open>ten\<close> is served
  (200), and one that declares 10485761 is answered with 413.
\<close>

theorem requestSizeLimit_declared_only_witness:
  "(0::int) \<le> 10485760
   \<and> requestSizeLimit 10485760 0 sampleRequest idle newResponse emptyState
       = Finished newResponse emptyState
   \<and> requestSizeLimit 10485760 0 (sampleRequest\<lparr>reqHeaders := [(''content-length'', ''12 MB'')]\<rparr>)
         idle newResponse emptyState
       = Finished newResponse emptyState
   \<and> requestSizeLimit 10485760 0 (sampleRequest\<lparr>reqHeaders := [(''content-length'', ''ten'')]\<rparr>)
         idle newResponse emptyState
       = Finished newResponse emptyState
   \<and> statusCode (outcomeResponse
        (requestSizeLimit 10485760 0 (sampleRequest\<lparr>reqHeaders := [(''content-length'', ''10485761'')]\<rparr>)
           idle newResponse emptyState))
       = 413
   \<and> \<not> headersSent newResponse
   \<and> statusCode (outcomeResponse
        (afterMiddleware sampleConfig 0 sampleProc idleTransport (healthRequest\<lparr>reqHeaders := []\<rparr>)
           newResponse emptyState)) = 200
   \<and> statusCode (outcomeResponse
        (afterMiddleware sampleConfig 0 sampleProc idleTransport
           (healthRequest\<lparr>reqHeaders := [(''content-length'', ''ten'')]\<rparr>)
           newResponse emptyState)) = 200
   \<and> statusCode (outcomeResponse
        (afterMiddleware sampleConfig 0 sampleProc idleTransport
           (healthRequest\<lparr>reqHeaders := [(''content-length'', ''10485761'')]\<rparr>)
           newResponse emptyState)) = 413"
proof -
  have h: "(0::int) \<le> 10485760" by simp
  have p1: "parseInt ''12 MB'' = Some 12"
    by (simp add: parseInt_def isWhiteSpace_def isDigit_def digitsValue_def)
  have p2: "parseInt ''ten'' = None"
    by (simp add: parseInt_def isWhiteSpace_def isDigit_def digitsValue_def)
  have p3: "parseInt ''10485761'' = Some 10485761"
    by (simp add: parseInt_def isWhiteSpace_def isDigit_def digitsValue_def)
  have a: "requestSizeLimit 10485760 0 sampleRequest idle newResponse emptyState
       = Finished newResponse emptyState
   \<and> requestSizeLimit 10485760 0 (sampleRequest\<lparr>reqHeaders := [(''content-length'', ''12 MB'')]\<rparr>)
         idle newResponse emptyState
       = Finished newResponse emptyState
   \<and> requestSizeLimit 10485760 0 (sampleRequest\<lparr>reqHeaders := [(''content-length'', ''ten'')]\<rparr>)
         idle newResponse emptyState
       = Finished newResponse emptyState
   \<and> statusCode (outcomeResponse
        (requestSizeLimit 10485760 0 (sampleRequest\<lparr>reqHeaders := [(''content-length'', ''10485761'')]\<rparr>)
           idle newResponse emptyState))
       = 413"
    using requestSizeLimit_declared_only [OF h, of 0 sampleRequest idle newResponse emptyState, THEN conjunct1]
      requestSizeLimit_declared_only [OF h, of 0 "sampleRequest\<lparr>reqHeaders := [(''content-length'', ''12 MB'')]\<rparr>" idle newResponse emptyState, THEN conjunct1]
      requestSizeLimit_declared_only [OF h, of 0 "sampleRequest\<lparr>reqHeaders := [(''content-length'', ''ten'')]\<rparr>" idle newResponse emptyState, THEN conjunct1]
      requestSizeLimit_declared_only [OF h, of 0 "sampleRequest\<lparr>reqHeaders := [(''content-length'', ''10485761'')]\<rparr>" idle newResponse emptyState, THEN conjunct1]
    by (simp add: header_def sampleRequest_def idle_def p1 p2 p3 sendJsonError_def newResponse_def
        outcomeResponse_def)
  note l = requestSizeLimit_declared_only [OF h, THEN conjunct2, THEN conjunct1, rule_format,
      OF fresh_newResponse]
  have b1: "statusCode (outcomeResponse
        (afterMiddleware sampleConfig 0 sampleProc idleTransport (healthRequest\<lparr>reqHeaders := []\<rparr>)
           newResponse emptyState)) = 200"
    unfolding l by (simp add: header_def routeRequest_health)
  have b2: "statusCode (outcomeResponse
        (afterMiddleware sampleConfig 0 sampleProc idleTransport
           (healthRequest\<lparr>reqHeaders := [(''content-length'', ''ten'')]\<rparr>)
           newResponse emptyState)) = 200"
    unfolding l by (simp add: header_def p2 routeRequest_health)
  have b3: "statusCode (outcomeResponse
        (afterMiddleware sampleConfig 0 sampleProc idleTransport
           (healthRequest\<lparr>reqHeaders := [(''content-length'', ''10485761'')]\<rparr>)
           newResponse emptyState)) = 413"
    unfolding l by (simp add: header_def p3 outcomeResponse_def writeJson_def)
  from h a fresh_newResponse b1 b2 b3 show ?thesis by blast
qed


subsection \<open>Order and short circuit\<close>



subsection \<open>The rate limiters\<close>

lemma ceilDiv_ceiling: "ceilDiv a 1000 = \<lceil>real_of_int a / 1000\<rceil>"
proof -
  have "\<lceil>real_of_int a / real_of_int 1000\<rceil> = - (- a div 1000)"
    by (rule ceiling_divide_eq_div)
  then show ?thesis by (simp add: ceilDiv_def)
qed

lemma touchEntry_spec:
  "touchEntry key now window store =
     (fst (fixedWindowCheck (map_of store key) now window limit),
      AList.update key (fst (fixedWindowCheck (map_of store key) now window limit)) store)"
  by (simp add: touchEntry_def fixedWindowCheck_def Let_def split: option.splits)

lemma retryAfter_sendJsonError:
  "map_of (resHeaders (sendJsonError res code err msg now)) ''Retry-After'' =
     map_of (resHeaders res) ''Retry-After''"
  by (simp add: sendJsonError_def update_conv')

text \<open>
  C4, as the claim states it, fails at the boundary: the code starts a fresh window only
  when \<open>resetTime < now\<close>. A check that arrives at exactly \<open>now = resetTime\<close> (here 1000)
  on a counter that has reached the limit of 10 is counted in the old window: the counter
  goes to 11 with its old \<open>resetTime\<close>, and the call is rejected with 429, where the claim
  has a fresh counter of 1 and an allowed call.
\<close>

theorem rate_limit_boundary_counterexample:
  "map_of (byIp boundaryState) (getClientIp sampleRequest) = Some \<lparr>count = 10, resetTime = 1000\<rparr>
   \<and> map_of (byIp (outcomeState
         (rateLimitTokenInjection sampleConfig 1000 sampleRequest idle newResponse boundaryState)))
        (getClientIp sampleRequest) = Some \<lparr>count = 11, resetTime = 1000\<rparr>
   \<and> map_of (byIp (outcomeState
         (rateLimitTokenInjection sampleConfig 1000 sampleRequest idle newResponse boundaryState)))
        (getClientIp sampleRequest) \<noteq> Some \<lparr>count = 1, resetTime = 1000 + 900000\<rparr>
   \<and> statusCode (outcomeResponse
         (rateLimitTokenInjection sampleConfig 1000 sampleRequest idle newResponse boundaryState)) = 429"
  by (simp add: rateLimitTokenInjection_def touchEntry_def getClientIp_def header_def truthy_def
      sampleRequest_def sampleConfig_def isEnabled_def boundaryState_def Let_def
      outcomeState_def outcomeResponse_def sendJsonError_def newResponse_def)

text \<open>
  C4, amended. With admission control enabled, each check of either limiter (the address
  of the client for \<open>rateLimitTokenInjection\<close>, a non-empty user id for
  \<open>rateLimitToolRequests\<close>) does what \<open>fixedWindowCheck\<close> says: the counter of the key
  is replaced by a fresh one \<open>{count: 0, resetTime: now + windowMs}\<close> when it is absent or
  \<open>now > resetTime\<close>, then its count is incremented and stored; the call is rejected
  exactly when the count is above the limit, and the rejection carries
  \<open>Retry-After = ceil((resetTime - now) / 1000)\<close> with status 429; otherwise the
  continuation runs with the three informational headers set.
\<close>

theorem rate_limit_check:
  assumes "isEnabled cfg"
  shows "(case fixedWindowCheck (map_of (byIp st) (getClientIp req)) now (windowMs (rateLimit cfg))
                (maxTokenInjectionsPerIp (rateLimit cfg)) of
            (c, rejected, retryAfter) \<Rightarrow>
              \<exists>r. rateLimitTokenInjection cfg now req next res st =
                     (if rejected
                      then Finished r (st\<lparr>byIp := AList.update (getClientIp req) c (byIp st)\<rparr>)
                      else next r (st\<lparr>byIp := AList.update (getClientIp req) c (byIp st)\<rparr>))
                 \<and> (if rejected
                    then map_of (resHeaders r) ''Retry-After'' = Some (showInt retryAfter)
                         \<and> (headersSent res \<or> statusCode r = 429)
                    else r = setHeader ''X-RateLimit-Reset'' (showInt (resetTime c))
                          (setHeader ''X-RateLimit-Remaining''
                             (showInt (maxTokenInjectionsPerIp (rateLimit cfg) - count c))
                            (setHeader ''X-RateLimit-Limit''
                               (showInt (maxTokenInjectionsPerIp (rateLimit cfg))) res))))
         \<and> (userId \<noteq> [] \<longrightarrow>
             (case fixedWindowCheck (map_of (byUser st) userId) now (windowMs (rateLimit cfg))
                (maxRequestsPerUser (rateLimit cfg)) of
            (c, rejected, retryAfter) \<Rightarrow>
              \<exists>r. rateLimitToolRequests (Some userId) cfg now req next res st =
                     (if rejected
                      then Finished r (st\<lparr>byUser := AList.update userId c (byUser st)\<rparr>)
                      else next r (st\<lparr>byUser := AList.update userId c (byUser st)\<rparr>))
                 \<and> (if rejected
                    then map_of (resHeaders r) ''Retry-After'' = Some (showInt retryAfter)
                         \<and> (headersSent res \<or> statusCode r = 429)
                    else r = setHeader ''X-RateLimit-Reset'' (showInt (resetTime c))
                          (setHeader ''X-RateLimit-Remaining''
                             (showInt (maxRequestsPerUser (rateLimit cfg) - count c))
                            (setHeader ''X-RateLimit-Limit''
                               (showInt (maxRequestsPerUser (rateLimit cfg))) res)))))"
proof -
  let ?lim = "maxTokenInjectionsPerIp (rateLimit cfg)"
  let ?f = "fixedWindowCheck (map_of (byIp st) (getClientIp req)) now (windowMs (rateLimit cfg)) ?lim"
  have f: "?f = (fst ?f, count (fst ?f) > ?lim, \<lceil>real_of_int (resetTime (fst ?f) - now) / 1000\<rceil>)"
    by (simp add: fixedWindowCheck_def Let_def)
  have ip: "case ?f of
            (c, rejected, retryAfter) \<Rightarrow>
              \<exists>r. rateLimitTokenInjection cfg now req next res st =
                     (if rejected
                      then Finished r (st\<lparr>byIp := AList.update (getClientIp req) c (byIp st)\<rparr>)
                      else next r (st\<lparr>byIp := AList.update (getClientIp req) c (byIp st)\<rparr>))
                 \<and> (if rejected
                    then map_of (resHeaders r) ''Retry-After'' = Some (showInt retryAfter)
                         \<and> (headersSent res \<or> statusCode r = 429)
                    else r = setHeader ''X-RateLimit-Reset'' (showInt (resetTime c))
                          (setHeader ''X-RateLimit-Remaining'' (showInt (?lim - count c))
                            (setHeader ''X-RateLimit-Limit'' (showInt ?lim) res)))"
    apply (subst f)
    apply (simp only: prod.case)
    using assms
    apply (simp add: rateLimitTokenInjection_def touchEntry_spec [where limit = "?lim"] Let_def
        retryAfter_sendJsonError map_of_setHeader ceilDiv_ceiling)
    apply (simp add: sendJsonError_def)
    done
  let ?limU = "maxRequestsPerUser (rateLimit cfg)"
  let ?g = "fixedWindowCheck (map_of (byUser st) userId) now (windowMs (rateLimit cfg)) ?limU"
  have g: "?g = (fst ?g, count (fst ?g) > ?limU, \<lceil>real_of_int (resetTime (fst ?g) - now) / 1000\<rceil>)"
    by (simp add: fixedWindowCheck_def Let_def)
  have user: "case ?g of
            (c, rejected, retryAfter) \<Rightarrow>
              \<exists>r. rateLimitToolRequests (Some userId) cfg now req next res st =
                     (if rejected
                      then Finished r (st\<lparr>byUser := AList.update userId c (byUser st)\<rparr>)
                      else next r (st\<lparr>byUser := AList.update userId c (byUser st)\<rparr>))
                 \<and> (if rejected
                    then map_of (resHeaders r) ''Retry-After'' = Some (showInt retryAfter)
                         \<and> (headersSent res \<or> statusCode r = 429)
                    else r = setHeader ''X-RateLimit-Reset'' (showInt (resetTime c))
                          (setHeader ''X-RateLimit-Remaining'' (showInt (?limU - count c))
                            (setHeader ''X-RateLimit-Limit'' (showInt ?limU) res)))"
    if "userId \<noteq> []"
    apply (subst g)
    apply (simp only: prod.case)
    using assms that
    apply (simp add: rateLimitToolRequests_def truthy_def touchEntry_spec [where limit = "?limU"] Let_def
        retryAfter_sendJsonError map_of_setHeader ceilDiv_ceiling)
    apply (simp add: sendJsonError_def)
    done
  from ip user show ?thesis by blast
qed

text \<open>
  A counter at the limit of 10 whose window ends at 2500, checked at 1000: the counter goes
  to 11, the call is rejected with 429 and asks to wait \<open>ceil(1500 / 1000) = 2\<close> seconds.
  A first request of user \<open>u1\<close> at 1000 is allowed and opens the window up to 901000.
\<close>

theorem rate_limit_check_witness:
  "isEnabled sampleConfig
   \<and> (\<exists>r. rateLimitTokenInjection sampleConfig 1000 sampleRequest idle newResponse fullWindowState =
            Finished r (fullWindowState\<lparr>byIp := [(''10.0.0.1'', \<lparr>count = 11, resetTime = 2500\<rparr>)]\<rparr>)
          \<and> map_of (resHeaders r) ''Retry-After'' = Some (showInt 2)
          \<and> statusCode r = 429)
   \<and> (\<exists>r. rateLimitToolRequests (Some ''u1'') sampleConfig 1000 sampleRequest idle newResponse
              fullWindowState =
            Finished r (fullWindowState\<lparr>byUser := [(''u1'', \<lparr>count = 1, resetTime = 901000\<rparr>)]\<rparr>))"
proof -
  have h: "isEnabled sampleConfig" by (simp add: isEnabled_def sampleConfig_def)
  have u: "''u1'' \<noteq> []" by simp
  have ip: "getClientIp sampleRequest = ''10.0.0.1''"
    by (simp add: getClientIp_def header_def truthy_def sampleRequest_def)
  note t = rate_limit_check [OF h, of 1000 sampleRequest idle newResponse fullWindowState "''u1''"]
  from t [THEN conjunct1]
  have a: "\<exists>r. rateLimitTokenInjection sampleConfig 1000 sampleRequest idle newResponse fullWindowState =
            Finished r (fullWindowState\<lparr>byIp := [(''10.0.0.1'', \<lparr>count = 11, resetTime = 2500\<rparr>)]\<rparr>)
          \<and> map_of (resHeaders r) ''Retry-After'' = Some (showInt 2)
          \<and> statusCode r = 429"
    by (simp add: ip fixedWindowCheck_def fullWindowState_def sampleConfig_def newResponse_def)
  from t [THEN conjunct2, rule_format, OF u]
  have b: "\<exists>r. rateLimitToolRequests (Some ''u1'') sampleConfig 1000 sampleRequest idle newResponse
              fullWindowState =
            Finished r (fullWindowState\<lparr>byUser := [(''u1'', \<lparr>count = 1, resetTime = 901000\<rparr>)]\<rparr>)"
    by (auto simp: fixedWindowCheck_def fullWindowState_def sampleConfig_def idle_def)
  from h a b show ?thesis by blast
qed

text \<open>
  The scenario of the specification on one store: with a limit of 3 and a window of 1000
  ms, four checks inside the window leave counts 1, 2, 3, 4 (the fourth above the limit),
  and a check after the window starts again at 1.
\<close>

lemma touchEntry_scenario:
  "touchEntry ''k'' 0 1000 [] = (\<lparr>count = 1, resetTime = 1000\<rparr>, [(''k'', \<lparr>count = 1, resetTime = 1000\<rparr>)])"
  "touchEntry ''k'' 10 1000 [(''k'', \<lparr>count = 1, resetTime = 1000\<rparr>)]
     = (\<lparr>count = 2, resetTime = 1000\<rparr>, [(''k'', \<lparr>count = 2, resetTime = 1000\<rparr>)])"
  "touchEntry ''k'' 20 1000 [(''k'', \<lparr>count = 2, resetTime = 1000\<rparr>)]
     = (\<lparr>count = 3, resetTime = 1000\<rparr>, [(''k'', \<lparr>count = 3, resetTime = 1000\<rparr>)])"
  "touchEntry ''k'' 30 1000 [(''k'', \<lparr>count = 3, resetTime = 1000\<rparr>)]
     = (\<lparr>count = 4, resetTime = 1000\<rparr>, [(''k'', \<lparr>count = 4, resetTime = 1000\<rparr>)])"
  "touchEntry ''k'' 1001 1000 [(''k'', \<lparr>count = 4, resetTime = 1000\<rparr>)]
     = (\<lparr>count = 1, resetTime = 2001\<rparr>, [(''k'', \<lparr>count = 1, resetTime = 2001\<rparr>)])"
  by (simp_all add: touchEntry_def Let_def)

section \<open>Properties of the token endpoints\<close>

lemma zPositiveInt_value:
  "zPositiveInt obj f m = Inr v \<Longrightarrow> map_of obj f = Some (JNum r) \<Longrightarrow> of_int v = r"
  by (auto simp: zPositiveInt_def Let_def split: if_splits)

lemma safeParse_expiresAt:
  assumes "safeParse (JObj obj) = Inr (u, t)"
  shows "zPositiveInt obj ''expiresAt'' ''expiresAt must be a positive integer'' = Inr (expiresAt t)"
  using assms
  by (auto simp: safeParse_def Let_def split: sum.splits)

text \<open>
  An injection whose \<open>expiresAt\<close> is not after \<open>now\<close> ends in one of the two 400 answers:
  the schema's, when the body does not pass it, and otherwise the already-expired one.
\<close>

lemma handleInjectTokens_expired:
  assumes "reqBody req = Inr (JObj obj)" and "map_of obj ''expiresAt'' = Some (JNum r)"
    and "r \<le> of_int now"
  shows "handleInjectTokens cfg now req res st =
           (case safeParse (JObj obj) of
              Inl issues \<Rightarrow>
                Finished (sendJsonError res 400 ''Validation Error'' (issuesMessage issues) now) st
            | Inr d \<Rightarrow>
                Finished (sendJsonError res 400 ''Invalid Token''
                  ''Token has already expired. Please refresh the token before injecting.'' now) st)"
proof (cases "safeParse (JObj obj)")
  case (Inl issues)
  with assms show ?thesis by (simp add: handleInjectTokens_def)
next
  case (Inr d)
  obtain u t where d: "d = (u, t)" by (cases d)
  from Inr d have "of_int (expiresAt t) = r"
    using zPositiveInt_value [OF safeParse_expiresAt assms(2)] by simp
  with assms(3) have "expiresAt t \<le> now"
    by (metis of_int_le_iff)
  with Inr d assms(1) show ?thesis
    by (simp add: handleInjectTokens_def)
qed

text \<open>A body that the schema refuses has at least one issue, so its message is not empty.\<close>

lemma joinStr_nonempty: "xs \<noteq> [] \<Longrightarrow> hd xs \<noteq> [] \<Longrightarrow> joinStr sep xs \<noteq> []"
  by (cases "(sep, xs)" rule: joinStr.cases) auto

lemma issuesMessage_nonempty: "iss \<noteq> [] \<Longrightarrow> issuesMessage iss \<noteq> []"
  unfolding issuesMessage_def
  by (rule joinStr_nonempty) (auto simp: hd_map case_prod_unfold)

lemma zString_issues: "zString obj f m = Inl iss \<Longrightarrow> iss \<noteq> []"
  by (auto simp: zString_def split: option.splits json.splits if_splits)

lemma zPositiveInt_issues: "zPositiveInt obj f m = Inl iss \<Longrightarrow> iss \<noteq> []"
  by (auto simp: zPositiveInt_def Let_def split: option.splits json.splits if_splits)

lemma issuesOf_nonempty_zString: "zString obj f m = Inl iss \<Longrightarrow> issuesOf (zString obj f m) \<noteq> []"
  by (simp add: issuesOf_def zString_issues)

lemma safeParse_issues:
  assumes "safeParse (JObj obj) = Inl iss"
  shows "iss \<noteq> []"
  using assms
  by (auto simp: safeParse_def Let_def issuesOf_def split: sum.splits
      dest: zString_issues zPositiveInt_issues)

lemma zPositiveInt_nonpositive:
  assumes "map_of obj f = Some (JNum r)" and "r \<le> 0"
  shows "\<exists>iss. zPositiveInt obj f m = Inl iss"
  using assms by (simp add: zPositiveInt_def Let_def)

lemma safeParse_nonpositive:
  assumes "map_of obj ''expiresAt'' = Some (JNum r)" and "r \<le> 0"
  shows "\<exists>iss. safeParse (JObj obj) = Inl iss"
proof -
  from zPositiveInt_nonpositive [OF assms]
  obtain iss where "zPositiveInt obj ''expiresAt'' ''expiresAt must be a positive integer'' = Inl iss"
    by blast
  then show ?thesis
    by (auto simp: safeParse_def Let_def split: sum.splits)
qed


lemma safeParse_injectBody:
  "safeParse (JObj (injectBody expiry)) =
     (if 0 < expiry
      then Inr (''u1'', \<lparr>accessToken = ''ya29'', refreshToken = ''1//0g'', expiresAt = expiry,
                         scope = ''calendar'', tokenType = ''Bearer''\<rparr>)
      else Inl [(''expiresAt'', ''expiresAt must be a positive integer'')])"
  by (simp add: safeParse_def injectBody_def zString_def zPositiveInt_def issuesOf_def Let_def)

text \<open>
  C5, as the claim states it, fails where the expiry is not a positive integer: tenant
  \<open>u1\<close> holds a credential and an injection arrives, at 1000002, with \<open>expiresAt = 0\<close>
  (which is \<open>\<le> now\<close>). The schema refuses the body before the expiry is compared with
  the clock, so the 400 answer is the schema's \<open>Validation Error\<close> and not the
  already-expired one.
\<close>

theorem expired_injection_message_counterexample:
  "map_of (tokenStore heldState) ''u1'' \<noteq> None
   \<and> map_of (injectBody 0) ''expiresAt'' = Some (JNum 0)
   \<and> (0::rat) \<le> of_int 1000002
   \<and> statusCode (outcomeResponse (handleInjectTokens sampleConfig 1000002 (injectRequest 0)
        newResponse heldState)) = 400
   \<and> resBody (outcomeResponse (handleInjectTokens sampleConfig 1000002 (injectRequest 0)
        newResponse heldState)) =
        Some (JObj [(''error'', JStr ''Validation Error''),
                    (''message'', JStr ''expiresAt: expiresAt must be a positive integer'')])
   \<and> resBody (outcomeResponse (handleInjectTokens sampleConfig 1000002 (injectRequest 0)
        newResponse heldState)) \<noteq>
        Some (JObj [(''error'', JStr ''Invalid Token''),
                    (''message'', JStr ''Token has already expired. Please refresh the token before injecting.'')])"
proof -
  have held: "map_of (tokenStore heldState) ''u1'' \<noteq> None"
    by (simp add: heldState_def)
  have carried: "map_of (injectBody 0) ''expiresAt'' = Some (JNum 0)"
    by (simp add: injectBody_def)
  have answer: "handleInjectTokens sampleConfig 1000002 (injectRequest 0) newResponse heldState =
      Finished (sendJsonError newResponse 400 ''Validation Error''
                  ''expiresAt: expiresAt must be a positive integer'' 1000002) heldState"
    by (simp add: handleInjectTokens_def injectRequest_def safeParse_injectBody issuesMessage_def)
  show ?thesis
    unfolding answer using held carried
    by (simp add: outcomeResponse_def sendJsonError_def newResponse_def)
qed

text \<open>
  C5, amended. Let tenant \<open>u\<close> hold a credential, and let an injection arrive whose body
  carries \<open>expiresAt \<le> now\<close>. The injection is answered with status 400 and leaves the
  whole state as it was. The answer is the already-expired one (\<open>Invalid Token\<close>) when
  the body passes the schema, and the schema's (\<open>Validation Error\<close>, with its issues) when
  it does not, as it never does when \<open>expiresAt \<le> 0\<close>. A status request afterwards, at
  any time \<open>now'\<close>, reports the credential held before, with \<open>valid\<close> true exactly when
  that credential is not expired at \<open>now'\<close>.
\<close>

theorem expired_injection_rejected:
  assumes "reqBody req = Inr (JObj obj)" and "map_of obj ''expiresAt'' = Some (JNum r)"
    and "r \<le> of_int now"
    and "map_of (tokenStore st) u = Some e" and "u \<noteq> []"
  shows "isFinished (handleInjectTokens cfg now req newResponse st)
         \<and> outcomeState (handleInjectTokens cfg now req newResponse st) = st
         \<and> statusCode (outcomeResponse (handleInjectTokens cfg now req newResponse st)) = 400
         \<and> resBody (outcomeResponse (handleInjectTokens cfg now req newResponse st)) =
              (case safeParse (JObj obj) of
                 Inl issues \<Rightarrow>
                   Some (JObj [(''error'', JStr ''Validation Error''),
                               (''message'', JStr (issuesMessage issues))])
               | Inr d \<Rightarrow>
                   Some (JObj [(''error'', JStr ''Invalid Token''),
                               (''message'', JStr ''Token has already expired. Please refresh the token before injecting.'')]))
         \<and> (r \<le> 0 \<longrightarrow>
              bodyMember (outcomeResponse (handleInjectTokens cfg now req newResponse st)) ''error''
                = Some (JStr ''Validation Error''))
         \<and> bodyMember (outcomeResponse (handleTokenStatus now' u newResponse
                (outcomeState (handleInjectTokens cfg now req newResponse st)))) ''valid''
             = Some (JBool (\<not> isTokenExpired (tokens e) now'))
         \<and> bodyMember (outcomeResponse (handleTokenStatus now' u newResponse
                (outcomeState (handleInjectTokens cfg now req newResponse st)))) ''expiresAt''
             = Some (JNum (of_int (expiresAt (tokens e))))"
proof -
  note inj = handleInjectTokens_expired [OF assms(1,2,3), of cfg newResponse st]
  have st: "outcomeState (handleInjectTokens cfg now req newResponse st) = st"
    unfolding inj by (simp add: outcomeState_def split: sum.splits)
  have fin: "isFinished (handleInjectTokens cfg now req newResponse st)"
    unfolding inj by (simp add: isFinished_def split: sum.splits)
  have code: "statusCode (outcomeResponse (handleInjectTokens cfg now req newResponse st)) = 400"
    unfolding inj by (simp add: outcomeResponse_def sendJsonError_def newResponse_def split: sum.splits)
  have msg: "resBody (outcomeResponse (handleInjectTokens cfg now req newResponse st)) =
              (case safeParse (JObj obj) of
                 Inl issues \<Rightarrow>
                   Some (JObj [(''error'', JStr ''Validation Error''),
                               (''message'', JStr (issuesMessage issues))])
               | Inr d \<Rightarrow>
                   Some (JObj [(''error'', JStr ''Invalid Token''),
                               (''message'', JStr ''Token has already expired. Please refresh the token before injecting.'')]))"
  proof (cases "safeParse (JObj obj)")
    case (Inl issues)
    then have "issuesMessage issues \<noteq> []"
      by (intro issuesMessage_nonempty safeParse_issues)
    with Inl show ?thesis unfolding inj
      by (simp add: outcomeResponse_def sendJsonError_def newResponse_def)
  next
    case (Inr d)
    then show ?thesis unfolding inj
      by (simp add: outcomeResponse_def sendJsonError_def newResponse_def)
  qed
  have neg: "bodyMember (outcomeResponse (handleInjectTokens cfg now req newResponse st)) ''error''
                = Some (JStr ''Validation Error'')" if "r \<le> 0"
  proof -
    from safeParse_nonpositive [OF assms(2) that]
    obtain issues where "safeParse (JObj obj) = Inl issues" by blast
    then show ?thesis unfolding bodyMember_def msg by simp
  qed
  have status: "handleTokenStatus now' u newResponse st =
      Finished (sendJsonSuccess newResponse
               [(''userId'', JStr u), (''hasTokens'', JBool True),
                (''valid'', JBool (\<not> isTokenExpired (tokens e) now')),
                (''expiresAt'', JNum (of_int (expiresAt (tokens e)))),
                (''expiresIn'', JNum (of_int (if expiresAt (tokens e) - now' > 0 then expiresAt (tokens e) - now' else 0))),
                (''expired'', JBool (isTokenExpired (tokens e) now')), (''scope'', JStr (scope (tokens e)))] 200 now')
        (st\<lparr>tokenStore := AList.update u (e\<lparr>lastAccessed := now'\<rparr>) (tokenStore st)\<rparr>)"
    using assms(4,5) by (simp add: handleTokenStatus_def getUserTokens_def Let_def)
  have v: "bodyMember (outcomeResponse (handleTokenStatus now' u newResponse st)) ''valid''
             = Some (JBool (\<not> isTokenExpired (tokens e) now'))"
    unfolding status
    by (simp add: bodyMember_def outcomeResponse_def sendJsonSuccess_def newResponse_def)
  have x: "bodyMember (outcomeResponse (handleTokenStatus now' u newResponse st)) ''expiresAt''
             = Some (JNum (of_int (expiresAt (tokens e))))"
    unfolding status
    by (simp add: bodyMember_def outcomeResponse_def sendJsonSuccess_def newResponse_def)
  from st fin code msg neg v x show ?thesis by simp
qed

text \<open>
  The scenario of the specification. The first injection for \<open>u1\<close>, at 1000000 with
  \<open>expiresAt = now + 3600000\<close>, is accepted and gives \<open>heldState\<close>.
\<close>

lemma first_injection_accepted:
  "outcomeState (handleInjectTokens sampleConfig 1000000 (injectRequest (1000000 + 3600000))
     newResponse emptyState) = heldState
   \<and> statusCode (outcomeResponse (handleInjectTokens sampleConfig 1000000
        (injectRequest (1000000 + 3600000)) newResponse emptyState)) = 200"
  by (simp add: handleInjectTokens_def injectRequest_def sampleRequest_def safeParse_injectBody
      sampleConfig_def setUserTokens_def validateTokens_def emptyState_def heldState_def
      sampleTokens_def outcomeState_def outcomeResponse_def sendJsonSuccess_def newResponse_def
      Let_def)

text \<open>
  The second injection, at 1000002 with \<open>expiresAt = now - 1000\<close>, is answered 400 with
  the already-expired message and leaves \<open>heldState\<close> as it is; the status of \<open>u1\<close> at
  1000003 is still \<open>valid: true\<close>.
\<close>

theorem expired_injection_rejected_witness:
  "reqBody (injectRequest (1000002 - 1000)) = Inr (JObj (injectBody (1000002 - 1000)))
   \<and> map_of (injectBody (1000002 - 1000)) ''expiresAt'' = Some (JNum (of_int (1000002 - 1000)))
   \<and> (of_int (1000002 - 1000) :: rat) \<le> of_int 1000002
   \<and> map_of (tokenStore heldState) ''u1'' =
        Some \<lparr>tokens = sampleTokens\<lparr>expiresAt := 1000000 + 3600000\<rparr>,
              lastUpdated = 1000000, lastAccessed = 1000000\<rparr>
   \<and> outcomeState (handleInjectTokens sampleConfig 1000002 (injectRequest (1000002 - 1000))
        newResponse heldState) = heldState
   \<and> statusCode (outcomeResponse (handleInjectTokens sampleConfig 1000002
        (injectRequest (1000002 - 1000)) newResponse heldState)) = 400
   \<and> resBody (outcomeResponse (handleInjectTokens sampleConfig 1000002
        (injectRequest (1000002 - 1000)) newResponse heldState)) =
        Some (JObj [(''error'', JStr ''Invalid Token''),
                    (''message'', JStr ''Token has already expired. Please refresh the token before injecting.'')])
   \<and> bodyMember (outcomeResponse (handleTokenStatus 1000003 ''u1'' newResponse
        (outcomeState (handleInjectTokens sampleConfig 1000002 (injectRequest (1000002 - 1000))
           newResponse heldState)))) ''valid'' = Some (JBool True)"
proof -
  let ?e = "\<lparr>tokens = sampleTokens\<lparr>expiresAt := 1000000 + 3600000\<rparr>,
              lastUpdated = 1000000, lastAccessed = 1000000\<rparr>"
  have h1: "reqBody (injectRequest (1000002 - 1000)) = Inr (JObj (injectBody (1000002 - 1000)))"
    by (simp add: injectRequest_def)
  have h2: "map_of (injectBody (1000002 - 1000)) ''expiresAt'' = Some (JNum (of_int (1000002 - 1000)))"
    by (simp add: injectBody_def)
  have h3: "(of_int (1000002 - 1000) :: rat) \<le> of_int 1000002" by simp
  have h4: "map_of (tokenStore heldState) ''u1'' = Some ?e"
    by (simp add: heldState_def)
  have h5: "''u1'' \<noteq> []" by simp
  have live: "\<not> isTokenExpired (tokens ?e) 1000003"
    by (simp add: isTokenExpired_def sampleTokens_def)
  note t = expired_injection_rejected [OF h1 h2 h3 h4 h5, of sampleConfig 1000003]
  from t have s: "outcomeState (handleInjectTokens sampleConfig 1000002 (injectRequest (1000002 - 1000))
        newResponse heldState) = heldState"
    by blast
  from t have c: "statusCode (outcomeResponse (handleInjectTokens sampleConfig 1000002
        (injectRequest (1000002 - 1000)) newResponse heldState)) = 400"
    by blast
  from t [THEN conjunct2, THEN conjunct2, THEN conjunct2, THEN conjunct1]
  have m: "resBody (outcomeResponse (handleInjectTokens sampleConfig 1000002
        (injectRequest (1000002 - 1000)) newResponse heldState)) =
        Some (JObj [(''error'', JStr ''Invalid Token''),
                    (''message'', JStr ''Token has already expired. Please refresh the token before injecting.'')])"
    by (simp add: safeParse_injectBody)
  from t [THEN conjunct2, THEN conjunct2, THEN conjunct2, THEN conjunct2, THEN conjunct2,
      THEN conjunct1] live
  have v: "bodyMember (outcomeResponse (handleTokenStatus 1000003 ''u1'' newResponse
        (outcomeState (handleInjectTokens sampleConfig 1000002 (injectRequest (1000002 - 1000))
           newResponse heldState)))) ''valid'' = Some (JBool True)"
    by simp
  from h1 h2 h3 h4 s c m v show ?thesis by blast
qed

section \<open>Properties of the management endpoints\<close>

text \<open>The health and metrics handlers read the statistics and leave the state as it is.\<close>

lemma handleHealthCheck_readonly:
  "outcomeState (handleHealthCheck cfg now proc res st) = st"
  by (simp add: handleHealthCheck_def outcomeState_def Let_def)

lemma handleMetrics_readonly:
  "outcomeState (handleMetrics cfg now proc res st) = st"
  by (simp add: handleMetrics_def outcomeState_def Let_def)

text \<open>
  C3 does not hold of the listing of active users. \<open>handleActiveUsers\<close> reads each
  credential through \<open>getUserTokens\<close>, which stamps \<open>lastAccessed\<close>: on a store whose only
  entry was last accessed at 1000, a listing at 90000000 (25 hours later) leaves the
  entry with \<open>lastAccessed = 90000000\<close>. The state after the call differs from the state
  before it, and the entry that the cleanup would have removed at that time now survives
  it.
\<close>

theorem handleActiveUsers_touches_store:
  "outcomeState (handleActiveUsers 90000000 newResponse staleState) =
     staleState\<lparr>tokenStore :=
       [(''u1'', \<lparr>tokens = sampleTokens, lastUpdated = 1000, lastAccessed = 90000000\<rparr>)]\<rparr>
   \<and> outcomeState (handleActiveUsers 90000000 newResponse staleState) \<noteq> staleState
   \<and> fst (cleanupStaleTokens 90000000 (tokenStore staleState)) = []
   \<and> fst (cleanupStaleTokens 90000000
        (tokenStore (outcomeState (handleActiveUsers 90000000 newResponse staleState)))) \<noteq> []"
  by (simp add: handleActiveUsers_def getAllUserIds_def staleState_def getUserTokens_def
      outcomeState_def Let_def cleanupStaleTokens_def STALE_TOKEN_THRESHOLD_MS_def)

end
